theory Spec2Isabelle
  imports Complex_Main "HOL-Library.Multiset"
begin

text \<open>
  The data pipeline of the health dashboard (window filter, series builder, summary
  aggregator, as written in the dashboard component) and the API route that stores the
  records, embedded as functions of HOL, and the properties the specification states
  about them.  Functions of the repository keep their names.  What the code calls from
  the JavaScript runtime and from the date-fns library is modelled after the documented
  behaviour of those functions.
\<close>

section \<open>JavaScript numbers and numeric parsing\<close>

text \<open>
  The dashboard and the API route are TypeScript.  Their numbers are IEEE 754 doubles:
  \<open>NaN\<close>, the two infinities, and the finite doubles, each taken as the real number it
  denotes (the two zeros are one number; nothing in the code tells them apart).  Every
  operation that produces a number rounds its exact result to the nearest double, a tie
  going to the double with the even significand, and overflows to an infinity.  The
  runtime functions the source calls (\<open>parseInt\<close>, \<open>parseFloat\<close>, \<open>Math.round\<close>,
  \<open>toFixed\<close>, \<open>Math.min\<close>, \<open>Math.max\<close>) follow their ECMAScript definitions.
  Strings are sequences of bytes, the UTF-8 encoding of the JavaScript string.
\<close>

datatype jsnum = NaN | Fin real | PInf | NInf

subsection \<open>Rounding to the nearest double\<close>

text \<open>\<open>2\<close> to an integer power.\<close>

definition pow2 :: "int \<Rightarrow> real" where
  "pow2 e = (if 0 \<le> e then 2 ^ nat e else 1 / 2 ^ nat (- e))"

text \<open>
  The binary exponent of a positive real \<open>a\<close>: the \<open>e\<close> with \<open>2^e \<le> a < 2^(e+1)\<close>,
  found by halving or doubling, but not below \<open>-1022\<close>, the exponent of the subnormal
  numbers, and not above \<open>1024\<close>, from where on every number overflows.
\<close>

function binade_up :: "real \<Rightarrow> int \<Rightarrow> int" where
  "binade_up a e = (if 2 \<le> a \<and> e < 1024 then binade_up (a / 2) (e + 1) else e)"
  by pat_completeness auto
termination
  by (relation "measure (\<lambda>(a, e). nat (1024 - e))") auto

function binade_down :: "real \<Rightarrow> int \<Rightarrow> int" where
  "binade_down a e = (if a < 1 \<and> - 1022 < e then binade_down (a * 2) (e - 1) else e)"
  by pat_completeness auto
termination
  by (relation "measure (\<lambda>(a, e). nat (e + 1022))") auto

declare binade_up.simps [simp del]

declare binade_down.simps [simp del]

definition exponent :: "real \<Rightarrow> int" where
  "exponent a = (if 1 \<le> a then binade_up a 0 else binade_down a 0)"

text \<open>The nearest integer, a tie going to the even one.\<close>

definition round_half_even :: "real \<Rightarrow> int" where
  "round_half_even r =
     (if r - of_int \<lfloor>r\<rfloor> < 1 / 2 then \<lfloor>r\<rfloor>
      else if 1 / 2 < r - of_int \<lfloor>r\<rfloor> then \<lfloor>r\<rfloor> + 1
      else if even \<lfloor>r\<rfloor> then \<lfloor>r\<rfloor> else \<lfloor>r\<rfloor> + 1)"

text \<open>
  The distance of neighbouring doubles around \<open>x\<close>: a double has \<open>53\<close> significant
  bits, so it is a multiple of \<open>2^(e-52)\<close>.
\<close>

definition ulp :: "real \<Rightarrow> real" where
  "ulp x = pow2 (exponent \<bar>x\<bar> - 52)"

text \<open>The multiple of \<open>ulp x\<close> nearest to \<open>x\<close>.\<close>

definition nearest_double :: "real \<Rightarrow> real" where
  "nearest_double x = (if x = 0 then 0 else of_int (round_half_even (x / ulp x)) * ulp x)"

text \<open>
  The Number value of a real: the nearest double, or an infinity when the nearest
  multiple has left the range of the doubles.
\<close>

definition fl :: "real \<Rightarrow> jsnum" where
  "fl x =
     (if pow2 1024 \<le> nearest_double x then PInf
      else if nearest_double x \<le> - pow2 1024 then NInf
      else Fin (nearest_double x))"

subsection \<open>Arithmetic\<close>

text \<open>\<open>v > 0\<close>: any comparison with \<open>NaN\<close> is false.\<close>

fun js_gt0 :: "jsnum \<Rightarrow> bool" where
  "js_gt0 (Fin r) = (0 < r)"
| "js_gt0 PInf = True"
| "js_gt0 NInf = False"
| "js_gt0 NaN = False"

text \<open>\<open>a + b\<close>.\<close>

fun js_add :: "jsnum \<Rightarrow> jsnum \<Rightarrow> jsnum" where
  "js_add (Fin a) (Fin b) = fl (a + b)"
| "js_add NaN b = NaN"
| "js_add a NaN = NaN"
| "js_add PInf NInf = NaN"
| "js_add NInf PInf = NaN"
| "js_add PInf b = PInf"
| "js_add NInf b = NInf"
| "js_add (Fin a) PInf = PInf"
| "js_add (Fin a) NInf = NInf"

text \<open>\<open>a / n\<close> for an array length \<open>n\<close>; division by zero gives an infinity or \<open>NaN\<close>.\<close>

fun js_div_len :: "jsnum \<Rightarrow> nat \<Rightarrow> jsnum" where
  "js_div_len NaN n = NaN"
| "js_div_len (Fin a) n =
     (if n = 0 then (if 0 < a then PInf else if a < 0 then NInf else NaN)
      else fl (a / real n))"
| "js_div_len PInf n = PInf"
| "js_div_len NInf n = NInf"

text \<open>
  \<open>Math.round\<close>: the nearest integer, a tie going up.  The nearest integer of a double
  is a double, so nothing is rounded a second time.
\<close>

fun Math_round :: "jsnum \<Rightarrow> jsnum" where
  "Math_round (Fin r) = Fin (of_int \<lfloor>r + 1 / 2\<rfloor>)"
| "Math_round v = v"

text \<open>\<open>Math.min(...values)\<close> and \<open>Math.max(...values)\<close>.\<close>

fun js_min2 :: "jsnum \<Rightarrow> jsnum \<Rightarrow> jsnum" where
  "js_min2 NaN b = NaN"
| "js_min2 a NaN = NaN"
| "js_min2 NInf b = NInf"
| "js_min2 a NInf = NInf"
| "js_min2 PInf b = b"
| "js_min2 a PInf = a"
| "js_min2 (Fin a) (Fin b) = Fin (min a b)"

fun js_max2 :: "jsnum \<Rightarrow> jsnum \<Rightarrow> jsnum" where
  "js_max2 NaN b = NaN"
| "js_max2 a NaN = NaN"
| "js_max2 PInf b = PInf"
| "js_max2 a PInf = PInf"
| "js_max2 NInf b = b"
| "js_max2 a NInf = a"
| "js_max2 (Fin a) (Fin b) = Fin (max a b)"

definition Math_min :: "jsnum list \<Rightarrow> jsnum" where
  "Math_min vs = foldl js_min2 PInf vs"

definition Math_max :: "jsnum list \<Rightarrow> jsnum" where
  "Math_max vs = foldl js_max2 NInf vs"

subsection \<open>Digits\<close>

text \<open>
  The white space that \<open>parseInt\<close> and \<open>parseFloat\<close> skip, and that the regular
  expression class \<open>\s\<close> matches: the ASCII characters tab, line feed, vertical tab,
  form feed, carriage return and space, and in UTF-8 the no-break space U+00A0, the
  space separators U+1680, U+2000 to U+200A, U+202F, U+205F and U+3000, the line and
  paragraph separators U+2028 and U+2029, and the byte order mark U+FEFF.
\<close>

definition unicode_ws3 :: "string list" where
  "unicode_ws3 =
     [[CHR 0xE1, CHR 0x9A, CHR 0x80],
      [CHR 0xE2, CHR 0x80, CHR 0x80], [CHR 0xE2, CHR 0x80, CHR 0x81],
      [CHR 0xE2, CHR 0x80, CHR 0x82], [CHR 0xE2, CHR 0x80, CHR 0x83],
      [CHR 0xE2, CHR 0x80, CHR 0x84], [CHR 0xE2, CHR 0x80, CHR 0x85],
      [CHR 0xE2, CHR 0x80, CHR 0x86], [CHR 0xE2, CHR 0x80, CHR 0x87],
      [CHR 0xE2, CHR 0x80, CHR 0x88], [CHR 0xE2, CHR 0x80, CHR 0x89],
      [CHR 0xE2, CHR 0x80, CHR 0x8A],
      [CHR 0xE2, CHR 0x80, CHR 0xA8], [CHR 0xE2, CHR 0x80, CHR 0xA9],
      [CHR 0xE2, CHR 0x80, CHR 0xAF], [CHR 0xE2, CHR 0x81, CHR 0x9F],
      [CHR 0xE3, CHR 0x80, CHR 0x80], [CHR 0xEF, CHR 0xBB, CHR 0xBF]]"

text \<open>The number of bytes of the white space character a string starts with, if any.\<close>

definition ws_length :: "string \<Rightarrow> nat" where
  "ws_length s =
     (if take 1 s \<in> set [[CHR 0x09], [CHR 0x0A], [CHR 0x0B], [CHR 0x0C], [CHR 0x0D], [CHR 0x20]]
      then 1
      else if take 2 s = [CHR 0xC2, CHR 0xA0] then 2
      else if take 3 s \<in> set unicode_ws3 then 3
      else 0)"

text \<open>The string without its leading white space.\<close>

function skip_ws :: "string \<Rightarrow> string" where
  "skip_ws s = (if ws_length s = 0 then s else skip_ws (drop (ws_length s) s))"
  by pat_completeness auto
termination
proof (relation "measure length")
  show "wf (measure length)" by simp
next
  fix s :: string
  assume a: "ws_length s \<noteq> 0"
  have "s \<noteq> []" using a by (auto simp: ws_length_def unicode_ws3_def)
  with a show "(drop (ws_length s) s, s) \<in> measure length" by simp
qed

declare skip_ws.simps [simp del]

text \<open>The value of a character as a digit of radix \<open>R\<close>, if it is one.\<close>

definition digit_of :: "nat \<Rightarrow> char \<Rightarrow> nat option" where
  "digit_of R c =
     (let n = (of_char c :: nat);
          v = (if 48 \<le> n \<and> n \<le> 57 then Some (n - 48)
               else if 97 \<le> n \<and> n \<le> 122 then Some (n - 87)
               else if 65 \<le> n \<and> n \<le> 90 then Some (n - 55)
               else None)
      in case v of None \<Rightarrow> None | Some d \<Rightarrow> if d < R then Some d else None)"

definition is_digit :: "char \<Rightarrow> bool" where
  "is_digit c = (digit_of 10 c \<noteq> None)"

definition nat_of_digits :: "nat \<Rightarrow> string \<Rightarrow> nat" where
  "nat_of_digits R ds = foldl (\<lambda>acc c. acc * R + (case digit_of R c of Some d \<Rightarrow> d | None \<Rightarrow> 0)) 0 ds"

definition digit_char :: "nat \<Rightarrow> char" where
  "digit_char d = (if d < 10 then ''0123456789'' ! d else CHR ''?'')"

text \<open>\<open>String(n)\<close> for a natural number: its decimal digits.\<close>

fun digits10 :: "nat \<Rightarrow> string" where
  "digits10 n = (if n < 10 then [digit_char n] else digits10 (n div 10) @ [digit_char (n mod 10)])"

declare digits10.simps [simp del]

text \<open>Digits padded with zeros on the left to width \<open>w\<close>.\<close>

definition pad_digits :: "nat \<Rightarrow> nat \<Rightarrow> string" where
  "pad_digits w n = replicate (w - length (digits10 n)) (CHR ''0'') @ digits10 n"

subsection \<open>parseInt and parseFloat\<close>

text \<open>
  \<open>parseInt(s)\<close> with no radix: leading white space and one sign are skipped, a
  \<open>0x\<close> prefix selects radix 16, and the longest run of digits is read; with no digit the
  result is \<open>NaN\<close>.  What follows the digits is ignored.  The result is the double
  nearest to the integer read.
\<close>

definition parseInt :: "string \<Rightarrow> jsnum" where
  "parseInt inputString =
     (let S = skip_ws inputString;
          sign = (if take 1 S = ''-'' then - 1 else 1 :: int);
          S1 = (if take 1 S = ''+'' \<or> take 1 S = ''-'' then drop 1 S else S);
          hex = (take 2 S1 = ''0x'' \<or> take 2 S1 = ''0X'');
          R = (if hex then 16 else 10);
          S2 = (if hex then drop 2 S1 else S1);
          Z = takeWhile (\<lambda>c. digit_of R c \<noteq> None) S2
      in if Z = [] then NaN else fl (of_int (sign * int (nat_of_digits R Z))))"

text \<open>\<open>10\<close> to an integer power.\<close>

definition pow10 :: "int \<Rightarrow> real" where
  "pow10 e = (if 0 \<le> e then 10 ^ nat e else 1 / 10 ^ nat (- e))"

text \<open>
  \<open>parseFloat(s)\<close>: leading white space is skipped and the longest prefix that is a
  decimal literal is read: a sign, then \<open>Infinity\<close> or digits with an optional fraction
  and an optional exponent.  With no such prefix the result is \<open>NaN\<close>; otherwise it is
  the double nearest to the decimal number read.
\<close>

definition parseFloat :: "string \<Rightarrow> jsnum" where
  "parseFloat inputString =
     (let S = skip_ws inputString;
          neg = (take 1 S = ''-'');
          S1 = (if take 1 S = ''+'' \<or> take 1 S = ''-'' then drop 1 S else S)
      in if take 8 S1 = ''Infinity'' then (if neg then NInf else PInf)
         else
           let ip = takeWhile is_digit S1;
               r1 = dropWhile is_digit S1;
               dot = (take 1 r1 = ''.'');
               fp = (if dot then takeWhile is_digit (drop 1 r1) else []);
               r2 = (if dot then dropWhile is_digit (drop 1 r1) else r1);
               ex = (take 1 r2 = ''e'' \<or> take 1 r2 = ''E'');
               r3 = drop 1 r2;
               eneg = (take 1 r3 = ''-'');
               r4 = (if take 1 r3 = ''+'' \<or> take 1 r3 = ''-'' then drop 1 r3 else r3);
               ed = takeWhile is_digit r4;
               e = (if ex \<and> ed \<noteq> [] then (if eneg then - int (nat_of_digits 10 ed)
                                           else int (nat_of_digits 10 ed))
                    else 0);
               m = real (nat_of_digits 10 (ip @ fp)) / 10 ^ length fp * pow10 e
           in if ip = [] \<and> fp = [] then NaN else fl (if neg then - m else m))"

text \<open>
  \<open>x.toFixed(f)\<close> of a finite number below \<open>10^21\<close> in size: the integer \<open>n\<close> nearest to
  \<open>|x| * 10^f\<close> (the larger one on a tie), written with \<open>f\<close> digits after the point.
  The product is exact, taken of the real number that the double \<open>x\<close> denotes.  From
  \<open>10^21\<close> on JavaScript switches to exponent notation, which is not modelled: the
  result is \<open>None\<close> there.
\<close>

definition toFixed :: "nat \<Rightarrow> real \<Rightarrow> string option" where
  "toFixed f x =
     (if 10 ^ 21 \<le> \<bar>x\<bar> then None
      else
        let n = nat \<lfloor>\<bar>x\<bar> * 10 ^ f + 1 / 2\<rfloor>;
            body = (if f = 0 then digits10 n
                    else digits10 (n div 10 ^ f) @ ''.'' @ pad_digits f (n mod 10 ^ f))
        in Some ((if x < 0 then ''-'' else '''') @ body))"

text \<open>
  \<open>parseFloat(v.toFixed(1))\<close>.  For the special values \<open>toFixed\<close> gives their names;
  for a number from \<open>10^21\<close> on it gives the number's own string, which parses back to
  the number.
\<close>

fun parseFloat_toFixed1 :: "jsnum \<Rightarrow> jsnum" where
  "parseFloat_toFixed1 (Fin x) = (case toFixed 1 x of Some s \<Rightarrow> parseFloat s | None \<Rightarrow> Fin x)"
| "parseFloat_toFixed1 NaN = parseFloat ''NaN''"
| "parseFloat_toFixed1 PInf = parseFloat ''Infinity''"
| "parseFloat_toFixed1 NInf = parseFloat ''-Infinity''"

section \<open>Health records and metric values\<close>

text \<open>\<open>interface HealthDataPoint\<close>: a date string and three optional numeric strings.\<close>

record HealthDataPoint =
  date :: string
  steps :: "string option"
  weight :: "string option"
  heartRate :: "string option"

text \<open>The active tab, \<open>"steps" | "weight" | "heartRate"\<close>.\<close>

datatype tab = Steps | Weight | HeartRate

text \<open>\<open>field || "0"\<close>: an absent field and the empty string are falsy.\<close>

definition or_zero :: "string option \<Rightarrow> string" where
  "or_zero fld = (case fld of None \<Rightarrow> ''0'' | Some s \<Rightarrow> if s = [] then ''0'' else s)"

text \<open>
  The number every stage reads from a record for a tab:
  \<open>parseInt(d.steps || "0")\<close>, \<open>parseFloat(d.weight || "0")\<close>,
  \<open>parseFloat(d.heartRate || "0")\<close>.
\<close>

fun metric_field :: "tab \<Rightarrow> HealthDataPoint \<Rightarrow> string option" where
  "metric_field Steps d = steps d"
| "metric_field Weight d = weight d"
| "metric_field HeartRate d = heartRate d"

fun metric_value :: "tab \<Rightarrow> HealthDataPoint \<Rightarrow> jsnum" where
  "metric_value Steps d = parseInt (or_zero (steps d))"
| "metric_value Weight d = parseFloat (or_zero (weight d))"
| "metric_value HeartRate d = parseFloat (or_zero (heartRate d))"

section \<open>Calendar dates\<close>

text \<open>
  A JavaScript \<open>Date\<close> holds a time value, the milliseconds since 1970-01-01, or is an
  Invalid Date.  A valid date is an \<open>int\<close>; where a date may be invalid it is an
  \<open>int option\<close> and \<open>None\<close> is the Invalid Date.  The local time zone of the model is
  UTC, so the local-time methods (\<open>getDate\<close>, \<open>setDate\<close>, \<open>setFullYear\<close>) and the
  date-fns functions work on the time value directly.  The functions below are the
  ECMAScript abstract operations with the same names; the proleptic Gregorian calendar
  is computed by era arithmetic on 400-year cycles.
\<close>

definition msPerDay :: int where
  "msPerDay = 86400000"

text \<open>The day number of a calendar date (month \<open>1..12\<close>), day \<open>0\<close> being 1970-01-01.\<close>

definition shifted_year :: "int \<Rightarrow> int \<Rightarrow> int" where
  "shifted_year y m = (if m \<le> 2 then y - 1 else y)"

definition day_of_shifted_year :: "int \<Rightarrow> int \<Rightarrow> int" where
  "day_of_shifted_year m d = (153 * (if 2 < m then m - 3 else m + 9) + 2) div 5 + d - 1"

definition day_of_era :: "int \<Rightarrow> int \<Rightarrow> int" where
  "day_of_era yoe doy = yoe * 365 + yoe div 4 - yoe div 100 + doy"

definition days_from_civil :: "int \<Rightarrow> int \<Rightarrow> int \<Rightarrow> int" where
  "days_from_civil y m d =
     (shifted_year y m div 400) * 146097
       + day_of_era (shifted_year y m mod 400) (day_of_shifted_year m d) - 719468"

text \<open>The calendar date (year, month \<open>1..12\<close>, day) of a day number.\<close>

definition year_of_era :: "int \<Rightarrow> int" where
  "year_of_era doe = (doe - doe div 1460 + doe div 36524 - doe div 146096) div 365"

definition day_of_year :: "int \<Rightarrow> int" where
  "day_of_year doe =
     doe - (365 * year_of_era doe + year_of_era doe div 4 - year_of_era doe div 100)"

definition month_index :: "int \<Rightarrow> int" where
  "month_index doe = (5 * day_of_year doe + 2) div 153"

definition civil_month :: "int \<Rightarrow> int" where
  "civil_month z =
     (if month_index ((z + 719468) mod 146097) < 10
      then month_index ((z + 719468) mod 146097) + 3
      else month_index ((z + 719468) mod 146097) - 9)"

definition civil_day :: "int \<Rightarrow> int" where
  "civil_day z =
     day_of_year ((z + 719468) mod 146097)
       - (153 * month_index ((z + 719468) mod 146097) + 2) div 5 + 1"

definition civil_year :: "int \<Rightarrow> int" where
  "civil_year z =
     year_of_era ((z + 719468) mod 146097) + ((z + 719468) div 146097) * 400
       + (if civil_month z \<le> 2 then 1 else 0)"

definition Day :: "int \<Rightarrow> int" where
  "Day t = t div msPerDay"

definition TimeWithinDay :: "int \<Rightarrow> int" where
  "TimeWithinDay t = t mod msPerDay"

definition getFullYear :: "int \<Rightarrow> int" where
  "getFullYear t = civil_year (Day t)"

text \<open>\<open>getMonth\<close> counts months from \<open>0\<close>.\<close>

definition getMonth :: "int \<Rightarrow> int" where
  "getMonth t = civil_month (Day t) - 1"

definition getDate :: "int \<Rightarrow> int" where
  "getDate t = civil_day (Day t)"

text \<open>
  \<open>MakeDay(year, month, date)\<close>: the month counts from \<open>0\<close> and may lie outside
  \<open>0..11\<close>, the date may lie outside the month; both carry over.
\<close>

definition MakeDay :: "int \<Rightarrow> int \<Rightarrow> int \<Rightarrow> int" where
  "MakeDay year month dt = days_from_civil (year + month div 12) (month mod 12 + 1) 1 + dt - 1"

definition MakeDate :: "int \<Rightarrow> int \<Rightarrow> int" where
  "MakeDate day time = day * msPerDay + time"

definition setDate :: "int \<Rightarrow> int \<Rightarrow> int" where
  "setDate t dt = MakeDate (MakeDay (getFullYear t) (getMonth t) dt) (TimeWithinDay t)"

definition setMonth :: "int \<Rightarrow> int \<Rightarrow> int \<Rightarrow> int" where
  "setMonth t month dt = MakeDate (MakeDay (getFullYear t) month dt) (TimeWithinDay t)"

definition setFullYear :: "int \<Rightarrow> int \<Rightarrow> int" where
  "setFullYear t year = MakeDate (MakeDay year (getMonth t) (getDate t)) (TimeWithinDay t)"

definition setFullYear3 :: "int \<Rightarrow> int \<Rightarrow> int \<Rightarrow> int \<Rightarrow> int" where
  "setFullYear3 t year month dt = MakeDate (MakeDay year month dt) (TimeWithinDay t)"

subsection \<open>The date-fns functions the dashboard imports\<close>

text \<open>
  \<open>addMonths\<close> of date-fns: the day of the month is kept unless the target month is
  shorter, in which case the last day of the target month is taken; the time of day is
  kept.  \<open>subMonths(d, n)\<close> is \<open>addMonths(d, -n)\<close>.
\<close>

definition endOfDesiredMonth :: "int \<Rightarrow> int \<Rightarrow> int" where
  "endOfDesiredMonth t amount = setMonth t (getMonth t + amount + 1) 0"

definition addMonths :: "int \<Rightarrow> int \<Rightarrow> int" where
  "addMonths t amount =
     (if amount = 0 then t
      else if getDate (endOfDesiredMonth t amount) \<le> getDate t
      then endOfDesiredMonth t amount
      else setFullYear3 t (getFullYear (endOfDesiredMonth t amount))
             (getMonth (endOfDesiredMonth t amount)) (getDate t))"

definition subMonths :: "int \<Rightarrow> int \<Rightarrow> int" where
  "subMonths t amount = addMonths t (- amount)"

definition isLeapYear :: "nat \<Rightarrow> bool" where
  "isLeapYear y = (y mod 400 = 0 \<or> (y mod 4 = 0 \<and> y mod 100 \<noteq> 0))"

definition days_in_month :: "nat \<Rightarrow> nat \<Rightarrow> nat" where
  "days_in_month y m =
     (if m = 2 then (if isLeapYear y then 29 else 28)
      else if m \<in> set [4, 6, 9, 11] then 30 else 31)"

text \<open>Up to \<open>n\<close> leading digits as a number, and the rest of the string.\<close>

definition parse_number :: "nat \<Rightarrow> string \<Rightarrow> (nat \<times> string) option" where
  "parse_number n s =
     (let ds = takeWhile is_digit (take n s)
      in if ds = [] then None else Some (nat_of_digits 10 ds, drop (length ds) s))"

definition parse_literal :: "char \<Rightarrow> string \<Rightarrow> string option" where
  "parse_literal c s = (case s of [] \<Rightarrow> None | x # r \<Rightarrow> if x = c then Some r else None)"

text \<open>
  \<open>parse(s, "yyyy-MM-dd", new Date())\<close> of date-fns: a year of up to four digits, a
  month and a day of up to two digits each, separated by \<open>-\<close>, followed by nothing but
  white space.  The year must be positive, the month in \<open>1..12\<close> and the day within the
  month; the result is midnight of that day.  Anything else is the Invalid Date.
\<close>

definition parse_ymd :: "string \<Rightarrow> int option" where
  "parse_ymd s =
     (case parse_number 4 s of None \<Rightarrow> None | Some (y, s1) \<Rightarrow>
      case parse_literal (CHR ''-'') s1 of None \<Rightarrow> None | Some s2 \<Rightarrow>
      case parse_number 2 s2 of None \<Rightarrow> None | Some (m, s3) \<Rightarrow>
      case parse_literal (CHR ''-'') s3 of None \<Rightarrow> None | Some s4 \<Rightarrow>
      case parse_number 2 s4 of None \<Rightarrow> None | Some (d, s5) \<Rightarrow>
        if skip_ws s5 \<noteq> [] then None
        else if 0 < y \<and> 1 \<le> m \<and> m \<le> 12 \<and> 1 \<le> d \<and> d \<le> days_in_month y m
        then Some (MakeDate (days_from_civil (int y) (int m) (int d)) 0)
        else None)"

text \<open>The errors a derivation can throw.\<close>

datatype error = RangeError

text \<open>The abbreviated month names of the \<open>zhCN\<close> locale: the month number and U+6708.\<close>

definition zhCN_month :: "int \<Rightarrow> string" where
  "zhCN_month m = digits10 (nat m) @ [CHR 0xE6, CHR 0x9C, CHR 0x88]"

text \<open>
  \<open>format(d, "MMM d", { locale: zhCN })\<close> of date-fns: the abbreviated month, a space
  and the day of the month.  On an Invalid Date \<open>format\<close> throws a \<open>RangeError\<close>.
\<close>

definition format_MMM_d :: "int option \<Rightarrow> error + string" where
  "format_MMM_d d =
     (case d of None \<Rightarrow> Inl RangeError
      | Some t \<Rightarrow> Inr (zhCN_month (getMonth t + 1) @ '' '' @ digits10 (nat (getDate t))))"

subsection \<open>What is left to the engine\<close>

text \<open>
  ECMAScript leaves two things the dashboard relies on to the JavaScript engine: how
  \<open>new Date(s)\<close> reads a string that is not in the standard's date-time format, and in
  which order \<open>Array.prototype.sort\<close> leaves an array when the comparison function is
  not consistent.  Both are parameters of the model: an engine says which time it reads
  from such a string (\<open>None\<close> is the Invalid Date) and how it arranges such an array.
\<close>

record engine =
  date_other :: "string \<Rightarrow> int option"
  sort_other :: "HealthDataPoint list \<Rightarrow> HealthDataPoint list"

text \<open>
  The date-only form of the standard's format: \<open>YYYY-MM-DD\<close>, four, two and two
  digits, naming a day that exists.
\<close>

definition iso_date :: "string \<Rightarrow> bool" where
  "iso_date s =
     (length s = 10 \<and> list_all is_digit (take 4 s) \<and> s ! 4 = CHR ''-''
      \<and> list_all is_digit (take 2 (drop 5 s)) \<and> s ! 7 = CHR ''-''
      \<and> list_all is_digit (drop 8 s)
      \<and> 1 \<le> nat_of_digits 10 (take 2 (drop 5 s)) \<and> nat_of_digits 10 (take 2 (drop 5 s)) \<le> 12
      \<and> 1 \<le> nat_of_digits 10 (drop 8 s)
      \<and> nat_of_digits 10 (drop 8 s)
           \<le> days_in_month (nat_of_digits 10 (take 4 s)) (nat_of_digits 10 (take 2 (drop 5 s))))"

text \<open>
  \<open>new Date(s).getTime()\<close>.  ECMAScript fixes the reading of the date-only form:
  midnight UTC of the day.  Any other string is read as the engine reads it.  (The
  standard also fixes the reading of the longer forms of its format, with a time of
  day; the dashboard's dates have none, and the model leaves those forms to the engine
  as well.)
\<close>

definition Date_getTime :: "engine \<Rightarrow> string \<Rightarrow> int option" where
  "Date_getTime eng s =
     (if iso_date s
      then Some (MakeDate (days_from_civil (int (nat_of_digits 10 (take 4 s)))
                    (int (nat_of_digits 10 (take 2 (drop 5 s))))
                    (int (nat_of_digits 10 (drop 8 s)))) 0)
      else date_other eng s)"

section \<open>Window Filter\<close>

text \<open>
  \<open>filteredData\<close> of the dashboard.  \<open>now\<close> is the value of \<open>new Date()\<close>, read once
  for the whole derivation; \<open>timePeriod\<close> is the selector string, one of
  \<open>TIME_PERIODS\<close>.  The \<open>switch\<close> computes a cutoff for the five bounded selectors and
  returns the whole collection for anything else.  A record passes the filter when
  \<open>itemDate >= cutoffDate\<close>; with an Invalid Date that comparison is false.
\<close>

definition filteredData :: "int \<Rightarrow> string \<Rightarrow> HealthDataPoint list \<Rightarrow> HealthDataPoint list" where
  "filteredData now timePeriod healthData =
     (if healthData = [] then []
      else
        let cutoffDate =
              (if timePeriod = ''7D'' then Some (setDate now (getDate now - 7))
               else if timePeriod = ''1M'' then Some (subMonths now 1)
               else if timePeriod = ''3M'' then Some (subMonths now 3)
               else if timePeriod = ''6M'' then Some (subMonths now 6)
               else if timePeriod = ''1Y'' then Some (setFullYear now (getFullYear now - 1))
               else None)
        in case cutoffDate of
             None \<Rightarrow> healthData
           | Some c \<Rightarrow>
               filter (\<lambda>item. case parse_ymd (date item) of None \<Rightarrow> False
                                | Some itemDate \<Rightarrow> c \<le> itemDate) healthData)"

section \<open>Series Builder\<close>

text \<open>
  \<open>Array.prototype.sort\<close> with a comparison function.  A result of the comparison that
  is \<open>NaN\<close> counts as \<open>0\<close>.  For a consistent comparison function ECMAScript fixes the
  outcome: the elements in ascending order, those that compare equal in their original
  order.  That outcome is computed here by the stable insertion sort, in which an element
  moves behind exactly those it compares greater than.  For a comparison function that
  is not consistent the order is the engine's, and all that is known of the outcome is
  that it holds the same elements.
\<close>

fun insert_cmp :: "('a \<Rightarrow> 'a \<Rightarrow> jsnum) \<Rightarrow> 'a \<Rightarrow> 'a list \<Rightarrow> 'a list" where
  "insert_cmp cmp x [] = [x]"
| "insert_cmp cmp x (y # ys) = (if js_gt0 (cmp x y) then y # insert_cmp cmp x ys else x # y # ys)"

text \<open>The comparison of two elements as ECMAScript reads the result: below, equal, above.\<close>

fun js_lt0 :: "jsnum \<Rightarrow> bool" where
  "js_lt0 (Fin r) = (r < 0)"
| "js_lt0 NInf = True"
| "js_lt0 PInf = False"
| "js_lt0 NaN = False"

definition cmp_eq :: "('a \<Rightarrow> 'a \<Rightarrow> jsnum) \<Rightarrow> 'a \<Rightarrow> 'a \<Rightarrow> bool" where
  "cmp_eq cmp a b = (cmp a b = Fin 0)"

text \<open>
  A consistent comparison function for the elements of an array, as ECMAScript defines
  it: no result is \<open>NaN\<close>, every element equals itself, equality is symmetric and
  transitive, and so are below and above.
\<close>

definition consistent :: "('a \<Rightarrow> 'a \<Rightarrow> jsnum) \<Rightarrow> 'a list \<Rightarrow> bool" where
  "consistent cmp xs =
     list_all (\<lambda>a. cmp_eq cmp a a \<and>
       list_all (\<lambda>b. cmp a b \<noteq> NaN
         \<and> (if cmp_eq cmp a b then cmp_eq cmp b a else True)
         \<and> list_all (\<lambda>c.
               (if cmp_eq cmp a b \<and> cmp_eq cmp b c then cmp_eq cmp a c else True)
             \<and> (if js_lt0 (cmp a b) \<and> js_lt0 (cmp b c) then js_lt0 (cmp a c) else True)
             \<and> (if js_gt0 (cmp a b) \<and> js_gt0 (cmp b c) then js_gt0 (cmp a c) else True)) xs) xs) xs"

text \<open>
  \<open>xs.sort(cmp)\<close>, where \<open>other\<close> is what the engine makes of an array it is given
  with a comparison function that is not consistent; an outcome of the engine's that
  does not hold the elements of the array is not one, and the array is left as it is.
\<close>

definition Array_sort ::
  "('a list \<Rightarrow> 'a list) \<Rightarrow> ('a \<Rightarrow> 'a \<Rightarrow> jsnum) \<Rightarrow> 'a list \<Rightarrow> 'a list" where
  "Array_sort other cmp xs =
     (if consistent cmp xs then foldr (insert_cmp cmp) xs []
      else if mset (other xs) = mset xs then other xs
      else xs)"

text \<open>
  \<open>a.getTime() - b.getTime()\<close>: \<open>NaN\<close> as soon as one date is invalid, the double
  nearest to the difference otherwise.
\<close>

definition time_diff :: "int option \<Rightarrow> int option \<Rightarrow> jsnum" where
  "time_diff a b = (case (a, b) of (Some x, Some y) \<Rightarrow> fl (real_of_int (x - y)) | _ \<Rightarrow> NaN)"




text \<open>The comparison function of the dashboard.\<close>

definition date_cmp :: "engine \<Rightarrow> HealthDataPoint \<Rightarrow> HealthDataPoint \<Rightarrow> jsnum" where
  "date_cmp eng a b = time_diff (Date_getTime eng (date a)) (Date_getTime eng (date b))"


text \<open>The value of \<open>sortedData\<close>.\<close>

definition sortedData :: "engine \<Rightarrow> HealthDataPoint list \<Rightarrow> HealthDataPoint list" where
  "sortedData eng fd = Array_sort (sort_other eng) (date_cmp eng) fd"

text \<open>\<open>xs.map(f)\<close> for an \<open>f\<close> that may throw: the first error ends the map.\<close>

fun map_throwing :: "('a \<Rightarrow> error + 'b) \<Rightarrow> 'a list \<Rightarrow> error + 'b list" where
  "map_throwing f [] = Inr []"
| "map_throwing f (x # xs) =
     (case f x of Inl e \<Rightarrow> Inl e
      | Inr y \<Rightarrow> (case map_throwing f xs of Inl e \<Rightarrow> Inl e | Inr ys \<Rightarrow> Inr (y # ys)))"

text \<open>
  A chart: the labels and the datasets.  Of a dataset the model keeps the legend and the
  numbers; the colours and point styles are constants of no consequence here.
\<close>

record dataset =
  legend :: string
  data :: "jsnum list"

record chart =
  labels :: "string list"
  datasets :: "dataset list"

text \<open>The legends, in UTF-8.\<close>

definition steps_legend :: string where
  "steps_legend = [CHR 0xE6, CHR 0xAD, CHR 0xA5, CHR 0xE6, CHR 0x95, CHR 0xB0]"

definition weight_legend :: string where
  "weight_legend = [CHR 0xE4, CHR 0xBD, CHR 0x93, CHR 0xE9, CHR 0x87, CHR 0x8D] @ '' (kg)''"

definition heartRate_legend :: string where
  "heartRate_legend = [CHR 0xE5, CHR 0xBF, CHR 0x83, CHR 0xE7, CHR 0x8E, CHR 0x87] @ '' (BPM)''"

text \<open>
  \<open>chartData\<close> of the dashboard: \<open>null\<close> for an empty set; otherwise the records are
  sorted, a label is formatted for each, the three number series are built and the one
  of the active tab is returned.  \<open>format\<close> throws on a date that did not parse, and
  nothing in \<open>chartData\<close> catches it.
\<close>

definition chartData :: "engine \<Rightarrow> HealthDataPoint list \<Rightarrow> tab \<Rightarrow> error + chart option" where
  "chartData eng fd activeTab =
     (if fd = [] then Inr None
      else
        let sorted_recs = sortedData eng fd
        in case map_throwing (\<lambda>item. format_MMM_d (parse_ymd (date item))) sorted_recs of
             Inl e \<Rightarrow> Inl e
           | Inr lbls \<Rightarrow>
               let steps_set = \<lparr>legend = steps_legend,
                       data = map (\<lambda>item. parseInt (or_zero (steps item))) sorted_recs\<rparr>;
                   weight_set = \<lparr>legend = weight_legend,
                       data = map (\<lambda>item. parseFloat (or_zero (weight item))) sorted_recs\<rparr>;
                   heartRate_set = \<lparr>legend = heartRate_legend,
                       data = map (\<lambda>item. parseFloat (or_zero (heartRate item))) sorted_recs\<rparr>
               in Inr (Some \<lparr>labels = lbls,
                      datasets = [case activeTab of Steps \<Rightarrow> steps_set
                                  | Weight \<Rightarrow> weight_set | HeartRate \<Rightarrow> heartRate_set]\<rparr>))"

text \<open>The chart handed to the chart component: \<open>chartData || { labels: [], datasets: [] }\<close>.\<close>

definition chart_prop :: "engine \<Rightarrow> HealthDataPoint list \<Rightarrow> tab \<Rightarrow> error + chart" where
  "chart_prop eng fd activeTab =
     (case chartData eng fd activeTab of
        Inl e \<Rightarrow> Inl e
      | Inr None \<Rightarrow> Inr \<lparr>labels = [], datasets = []\<rparr>
      | Inr (Some c) \<Rightarrow> Inr c)"

section \<open>Summary Aggregator\<close>

record metricInfo =
  unit :: string
  average :: jsnum

record minMaxValues =
  min_value :: jsnum
  max_value :: jsnum

text \<open>\<open>values.reduce((sum, val) => sum + val, 0)\<close>.\<close>

definition reduce_sum :: "jsnum list \<Rightarrow> jsnum" where
  "reduce_sum vs = foldl js_add (Fin 0) vs"

definition steps_unit :: string where
  "steps_unit = [CHR 0xE6, CHR 0xAD, CHR 0xA5]"

text \<open>\<open>getMetricInfo\<close>: the unit and the average of the active tab.\<close>

definition getMetricInfo :: "HealthDataPoint list \<Rightarrow> tab \<Rightarrow> metricInfo" where
  "getMetricInfo fd activeTab =
     (if fd = [] then \<lparr>unit = [], average = Fin 0\<rparr>
      else case activeTab of
        Steps \<Rightarrow>
          let stepsValues = filter js_gt0 (map (\<lambda>d. parseInt (or_zero (steps d))) fd)
          in \<lparr>unit = steps_unit,
              average = Math_round (js_div_len (reduce_sum stepsValues)
                          (if length stepsValues = 0 then 1 else length stepsValues))\<rparr>
      | Weight \<Rightarrow>
          let weightValues = filter js_gt0 (map (\<lambda>d. parseFloat (or_zero (weight d))) fd)
          in \<lparr>unit = ''kg'',
              average = (if length weightValues \<noteq> 0
                         then parseFloat_toFixed1 (js_div_len (reduce_sum weightValues)
                                (length weightValues))
                         else Fin 0)\<rparr>
      | HeartRate \<Rightarrow>
          let hrValues = filter js_gt0 (map (\<lambda>d. parseFloat (or_zero (heartRate d))) fd)
          in \<lparr>unit = ''BPM'',
              average = (if length hrValues \<noteq> 0
                         then Math_round (js_div_len (reduce_sum hrValues) (length hrValues))
                         else Fin 0)\<rparr>)"

text \<open>\<open>getMinMaxValues\<close>: the least and the greatest eligible value of the active tab.\<close>

definition getMinMaxValues :: "HealthDataPoint list \<Rightarrow> tab \<Rightarrow> minMaxValues" where
  "getMinMaxValues fd activeTab =
     (if fd = [] then \<lparr>min_value = Fin 0, max_value = Fin 0\<rparr>
      else
        let vals = (case activeTab of
                Steps \<Rightarrow> filter js_gt0 (map (\<lambda>d. parseInt (or_zero (steps d))) fd)
              | Weight \<Rightarrow> filter js_gt0 (map (\<lambda>d. parseFloat (or_zero (weight d))) fd)
              | HeartRate \<Rightarrow> filter js_gt0 (map (\<lambda>d. parseFloat (or_zero (heartRate d))) fd))
        in \<lparr>min_value = (if length vals \<noteq> 0 then Math_min vals else Fin 0),
            max_value = (if length vals \<noteq> 0 then Math_max vals else Fin 0)\<rparr>)"

text \<open>\<open>isDataEmpty\<close>: no record, or no record with a positive value for the active tab.\<close>

definition isDataEmpty :: "HealthDataPoint list \<Rightarrow> tab \<Rightarrow> bool" where
  "isDataEmpty fd activeTab =
     (fd = []
      \<or> (activeTab = Steps \<and> \<not> list_ex (\<lambda>d. js_gt0 (parseInt (or_zero (steps d)))) fd)
      \<or> (activeTab = Weight \<and> \<not> list_ex (\<lambda>d. js_gt0 (parseFloat (or_zero (weight d)))) fd)
      \<or> (activeTab = HeartRate \<and> \<not> list_ex (\<lambda>d. js_gt0 (parseFloat (or_zero (heartRate d)))) fd))"

text \<open>
  What a metric card shows: the loading text, the no-data text, or a number with its
  unit.  The three cards differ in the number only.
\<close>

datatype card = Loading | NoData | Shown jsnum string

definition metric_card :: "bool \<Rightarrow> HealthDataPoint list \<Rightarrow> tab \<Rightarrow> jsnum \<Rightarrow> card" where
  "metric_card loading fd activeTab v =
     (if loading then Loading
      else if isDataEmpty fd activeTab then NoData
      else Shown v (unit (getMetricInfo fd activeTab)))"

definition average_card :: "bool \<Rightarrow> HealthDataPoint list \<Rightarrow> tab \<Rightarrow> card" where
  "average_card loading fd activeTab =
     metric_card loading fd activeTab (average (getMetricInfo fd activeTab))"

definition min_card :: "bool \<Rightarrow> HealthDataPoint list \<Rightarrow> tab \<Rightarrow> card" where
  "min_card loading fd activeTab =
     metric_card loading fd activeTab (min_value (getMinMaxValues fd activeTab))"

definition max_card :: "bool \<Rightarrow> HealthDataPoint list \<Rightarrow> tab \<Rightarrow> card" where
  "max_card loading fd activeTab =
     metric_card loading fd activeTab (max_value (getMinMaxValues fd activeTab))"

text \<open>What the chart component receives: the labels and the numbers of the datasets.\<close>

definition series_labels :: "engine \<Rightarrow> HealthDataPoint list \<Rightarrow> tab \<Rightarrow> error + string list" where
  "series_labels eng fd activeTab =
     (case chart_prop eng fd activeTab of Inl e \<Rightarrow> Inl e | Inr c \<Rightarrow> Inr (labels c))"

definition series_values :: "engine \<Rightarrow> HealthDataPoint list \<Rightarrow> tab \<Rightarrow> error + jsnum list" where
  "series_values eng fd activeTab =
     (case chart_prop eng fd activeTab of Inl e \<Rightarrow> Inl e
      | Inr c \<Rightarrow> Inr (concat (map data (datasets c))))"

section \<open>The API route\<close>

text \<open>
  The route keeps the collection in one JSON file.  The file is absent (\<open>None\<close>), holds
  the JSON text of an array of records, or holds something \<open>JSON.parse\<close> rejects or that
  is no array, on which \<open>push\<close> fails.  The handlers never look inside a record, so the
  record type is a parameter.  Failures of the disk while writing are outside the model.
\<close>

datatype 'a stored = JsonArray "'a list" | Unreadable

text \<open>The request body: \<open>req.json()\<close> gives a record or throws.\<close>

datatype 'a request = Body 'a | BadBody

text \<open>
  The responses: status 200 with the saved message, status 200 with the collection,
  status 500 with a failure message.
\<close>

datatype 'a response = Saved_200 | Data_200 "'a list" | Failed_500

text \<open>
  \<open>POST\<close>: the whole collection is read, the record is pushed, the whole collection is
  written back.  Every exception is caught and answered with status 500; the file is
  then as it was, since the write is the last step.
\<close>

definition POST :: "'a request \<Rightarrow> 'a stored option \<Rightarrow> 'a response \<times> 'a stored option" where
  "POST req file =
     (case req of
        BadBody \<Rightarrow> (Failed_500, file)
      | Body healthDataPoint \<Rightarrow>
          (case file of
             None \<Rightarrow> (Saved_200, Some (JsonArray ([] @ [healthDataPoint])))
           | Some (JsonArray existingData) \<Rightarrow>
               (Saved_200, Some (JsonArray (existingData @ [healthDataPoint])))
           | Some Unreadable \<Rightarrow> (Failed_500, file)))"

text \<open>
  The variant of \<open>POST\<close> that keeps the file in a \<open>data\<close> directory and creates the
  directory when it is missing.  The state is whether the directory exists, and the
  file, which can only exist inside an existing directory.
\<close>

definition POST_data_dir ::
  "'a request \<Rightarrow> bool \<times> 'a stored option \<Rightarrow> 'a response \<times> (bool \<times> 'a stored option)" where
  "POST_data_dir req fs =
     (case req of
        BadBody \<Rightarrow> (Failed_500, fs)
      | Body healthDataPoint \<Rightarrow>
          (let file = (if fst fs then snd fs else None)
           in case file of
                None \<Rightarrow> (Saved_200, (True, Some (JsonArray ([] @ [healthDataPoint]))))
              | Some (JsonArray existingData) \<Rightarrow>
                  (Saved_200, (True, Some (JsonArray (existingData @ [healthDataPoint]))))
              | Some Unreadable \<Rightarrow> (Failed_500, (True, file))))"

subsection \<open>The test-data generator\<close>

text \<open>\<open>String(n)\<close> for an integer.\<close>

definition String_int :: "int \<Rightarrow> string" where
  "String_int n = (if n < 0 then ''-'' @ digits10 (nat (- n)) else digits10 (nat n))"

text \<open>
  \<open>d.toISOString().slice(0, 10)\<close>: the date as \<open>YYYY-MM-DD\<close>; years outside
  \<open>0..9999\<close> are written with a sign and six digits, of which the slice keeps a part.
\<close>

definition toISOString_slice10 :: "int \<Rightarrow> string" where
  "toISOString_slice10 t =
     take 10 ((if 0 \<le> civil_year (Day t) \<and> civil_year (Day t) \<le> 9999
               then pad_digits 4 (nat (civil_year (Day t)))
               else (if civil_year (Day t) < 0 then ''-'' else ''+'')
                      @ pad_digits 6 (nat \<bar>civil_year (Day t)\<bar>))
              @ ''-'' @ pad_digits 2 (nat (civil_month (Day t)))
              @ ''-'' @ pad_digits 2 (nat (civil_day (Day t))))"

text \<open>
  \<open>generateTestData\<close>: one record a day from \<open>startDate\<close> on.  \<open>Math.random()\<close> is
  an input: \<open>rnd k\<close> is the result of its \<open>k\<close>-th call, a double from \<open>0\<close> up to but
  not including \<open>1\<close>, and round \<open>i\<close> of the loop makes the calls \<open>2 * i\<close> (steps) and
  \<open>2 * i + 1\<close> (weight).  Each product, sum and difference is rounded to the nearest
  double; none of them can overflow in a run of fewer than \<open>10^300\<close> days.  The weight
  string is empty where \<open>toFixed\<close> is not modelled, which no such run reaches.
\<close>

function generateTestData_loop ::
  "(nat \<Rightarrow> real) \<Rightarrow> nat \<Rightarrow> nat \<Rightarrow> int \<Rightarrow> HealthDataPoint list \<Rightarrow> HealthDataPoint list" where
  "generateTestData_loop rnd days i currentDate acc =
     (if i < days then
        let dateString = toISOString_slice10 currentDate;
            steps_n = \<lfloor>nearest_double (rnd (2 * i) * (12000 - 5000 + 1))\<rfloor> + 5000;
            weight_s = (case toFixed 2
                          (nearest_double (nearest_double
                             (nearest_double (75 - nearest_double (real i * nearest_double (1 / 10)))
                                + nearest_double (rnd (2 * i + 1) * 2)) - 1)) of
                          Some s \<Rightarrow> s | None \<Rightarrow> []);
            dataPoint = \<lparr>date = dateString, steps = Some (String_int steps_n),
                         weight = Some weight_s, heartRate = None\<rparr>
        in generateTestData_loop rnd days (i + 1)
             (setDate currentDate (getDate currentDate + 1)) (acc @ [dataPoint])
      else acc)"
  by pat_completeness auto
termination
  by (relation "measure (\<lambda>(rnd, days, i, currentDate, acc). days - i)") auto

declare generateTestData_loop.simps [simp del]

definition generateTestData :: "(nat \<Rightarrow> real) \<Rightarrow> int \<Rightarrow> nat \<Rightarrow> HealthDataPoint list" where
  "generateTestData rnd startDate days = generateTestData_loop rnd days 0 startDate []"

text \<open>
  \<open>gen\<close>: thirty days of test data from 2025-01-02 on are written to the collection's
  file, whatever the file held.
\<close>

definition gen :: "(nat \<Rightarrow> real) \<Rightarrow> HealthDataPoint stored option \<Rightarrow> HealthDataPoint stored option" where
  "gen rnd file =
     (let startDate = MakeDate (days_from_civil 2025 1 2) 0;
          numberOfDays = 30;
          testData = generateTestData rnd startDate numberOfDays
      in Some (JsonArray testData))"

text \<open>\<open>GET\<close>: \<open>gen()\<close> runs first, then the file is read and returned.\<close>

definition GET ::
  "(nat \<Rightarrow> real) \<Rightarrow> HealthDataPoint stored option
     \<Rightarrow> HealthDataPoint response \<times> HealthDataPoint stored option" where
  "GET rnd file =
     (let file1 = gen rnd file
      in case file1 of
           None \<Rightarrow> (Data_200 [], file1)
         | Some (JsonArray healthData) \<Rightarrow> (Data_200 healthData, file1)
         | Some Unreadable \<Rightarrow> (Failed_500, file1))"

section \<open>Notions of the specification\<close>










text \<open>The parser each tab applies to its field.\<close>

fun parse_metric :: "tab \<Rightarrow> string \<Rightarrow> jsnum" where
  "parse_metric Steps s = parseInt s"
| "parse_metric Weight s = parseFloat s"
| "parse_metric HeartRate s = parseFloat s"

text \<open>
  The value of a record in the series: \<open>0\<close> for a field that is absent or the empty
  string, the parsed field otherwise.
\<close>

definition emitted_value :: "tab \<Rightarrow> HealthDataPoint \<Rightarrow> jsnum" where
  "emitted_value t d =
     (case metric_field t d of None \<Rightarrow> Fin 0
      | Some s \<Rightarrow> if s = [] then Fin 0 else parse_metric t s)"

text \<open>The eligible values: the values of the fields that are present, those above zero.\<close>

definition eligible :: "tab \<Rightarrow> HealthDataPoint list \<Rightarrow> jsnum list" where
  "eligible t fd =
     filter js_gt0 (List.map_filter (\<lambda>d. map_option (parse_metric t) (metric_field t d)) fd)"

text \<open>The arithmetic mean of real numbers.\<close>

definition arith_mean :: "real list \<Rightarrow> real" where
  "arith_mean rs = sum_list rs / real (length rs)"

text \<open>
  The mean as double arithmetic computes it: the numbers are added one after the
  other, from the left, each sum rounded to the nearest double, and the last sum is
  divided by their count and rounded once more.
\<close>

definition double_sum :: "jsnum list \<Rightarrow> jsnum" where
  "double_sum vs = foldl js_add (Fin 0) vs"

definition double_mean :: "jsnum list \<Rightarrow> jsnum" where
  "double_mean vs = js_div_len (double_sum vs) (length vs)"

text \<open>The tenth nearest to a real number, a tie going away from zero.\<close>

definition nearest_tenth :: "real \<Rightarrow> real" where
  "nearest_tenth x =
     (if x < 0 then - (of_int \<lfloor>- x * 10 + 1 / 2\<rfloor> / 10) else of_int \<lfloor>x * 10 + 1 / 2\<rfloor> / 10)"

text \<open>
  The rounding policy: steps and heart rate to the nearest whole number, a tie going up;
  weight to the nearest tenth, as a double.  A weight from \<open>10^21\<close> on is left as it
  is, and so are \<open>NaN\<close> and the infinities.
\<close>

fun rounded :: "tab \<Rightarrow> jsnum \<Rightarrow> jsnum" where
  "rounded Steps (Fin x) = Fin (of_int \<lfloor>x + 1 / 2\<rfloor>)"
| "rounded HeartRate (Fin x) = Fin (of_int \<lfloor>x + 1 / 2\<rfloor>)"
| "rounded Weight (Fin x) = (if 10 ^ 21 \<le> \<bar>x\<bar> then Fin x else fl (nearest_tenth x))"
| "rounded t NaN = NaN"
| "rounded t PInf = PInf"
| "rounded t NInf = NInf"

text \<open>A number obeys the rounding policy of a tab when rounding leaves it as it is.\<close>

definition obeys_rounding :: "tab \<Rightarrow> jsnum \<Rightarrow> bool" where
  "obeys_rounding t v = (rounded t v = v)"

text \<open>A record with a date and the three fields, for the examples.\<close>

definition point :: "string \<Rightarrow> string option \<Rightarrow> string option \<Rightarrow> string option \<Rightarrow> HealthDataPoint" where
  "point d s w h = \<lparr>date = d, steps = s, weight = w, heartRate = h\<rparr>"

text \<open>
  The numbers a summary is computed from: what each stage reads from the records, those
  above zero.  The average, the least and the greatest value depend on the records
  through this list only.
\<close>

definition positive_values :: "tab \<Rightarrow> HealthDataPoint list \<Rightarrow> jsnum list" where
  "positive_values t fd = filter js_gt0 (map (metric_value t) fd)"

definition average_of :: "tab \<Rightarrow> jsnum list \<Rightarrow> jsnum" where
  "average_of t vs =
     (case t of
        Steps \<Rightarrow> Math_round (js_div_len (reduce_sum vs) (if length vs = 0 then 1 else length vs))
      | Weight \<Rightarrow> (if length vs \<noteq> 0
                   then parseFloat_toFixed1 (js_div_len (reduce_sum vs) (length vs)) else Fin 0)
      | HeartRate \<Rightarrow> (if length vs \<noteq> 0
                      then Math_round (js_div_len (reduce_sum vs) (length vs)) else Fin 0))"

text \<open>
  The stored collection as the handlers read it: empty when the file is absent, the
  array when the file holds one, and unreadable otherwise.
\<close>

definition collection :: "'a stored option \<Rightarrow> 'a list option" where
  "collection file =
     (case file of None \<Rightarrow> Some [] | Some (JsonArray xs) \<Rightarrow> Some xs | Some Unreadable \<Rightarrow> None)"

text \<open>
  The cutoff of a window selector at the instant \<open>now\<close>: seven days back, one, three or
  six calendar months back, one calendar year back; no cutoff for any other selector.
\<close>

definition cutoff :: "string \<Rightarrow> int \<Rightarrow> int option" where
  "cutoff timePeriod now =
     (if timePeriod = ''7D'' then Some (setDate now (getDate now - 7))
      else if timePeriod = ''1M'' then Some (subMonths now 1)
      else if timePeriod = ''3M'' then Some (subMonths now 3)
      else if timePeriod = ''6M'' then Some (subMonths now 6)
      else if timePeriod = ''1Y'' then Some (setFullYear now (getFullYear now - 1))
      else None)"

text \<open>A date string is on or after a cutoff when it parses to a date that is.\<close>

definition on_or_after :: "string \<Rightarrow> int \<Rightarrow> bool" where
  "on_or_after d c = (case parse_ymd d of None \<Rightarrow> False | Some t \<Rightarrow> c \<le> t)"

text \<open>
  The calendar: leap years, the length of a month (\<open>1..12\<close>) of a year, and the dates
  that exist.
\<close>

definition leap_year :: "int \<Rightarrow> bool" where
  "leap_year y = (y mod 4 = 0 \<and> (y mod 100 \<noteq> 0 \<or> y mod 400 = 0))"

definition month_length :: "int \<Rightarrow> int \<Rightarrow> int" where
  "month_length y m =
     (if m = 2 then (if leap_year y then 29 else 28)
      else if m = 4 \<or> m = 6 \<or> m = 9 \<or> m = 11 then 30 else 31)"

definition valid_date :: "int \<Rightarrow> int \<Rightarrow> int \<Rightarrow> bool" where
  "valid_date y m d = (1 \<le> m \<and> m \<le> 12 \<and> 1 \<le> d \<and> d \<le> month_length y m)"

text \<open>The months of an instant, counted from the year \<open>0\<close>.\<close>

definition month_count :: "int \<Rightarrow> int" where
  "month_count t = 12 * getFullYear t + getMonth t"




text \<open>
  An engine for the examples: it reads no date but those of the standard's date-only
  form, and leaves an array it is given with an inconsistent comparison function as it
  is.
\<close>

definition plain_engine :: engine where
  "plain_engine = \<lparr>date_other = (\<lambda>s. None), sort_other = (\<lambda>xs. xs)\<rparr>"

text \<open>
  For the facts about the calendar: the day of the era on which a year of the era
  starts, the numerator of \<open>year_of_era\<close>, and the test that the first and the last
  day of a year of the era are given that year.
\<close>

definition year_start :: "int \<Rightarrow> int" where
  "year_start y = 365 * y + y div 4 - y div 100"



section \<open>Numeric parsing: facts\<close>

lemma pow2_pos: "0 < pow2 e"
  by (simp add: pow2_def)


lemma fl_not_NaN [simp]: "fl x \<noteq> NaN"
  by (simp add: fl_def)

lemma nearest_double_0 [simp]: "nearest_double 0 = 0"
  by (simp add: nearest_double_def)

lemma fl_0 [simp]: "fl 0 = Fin 0"
  using pow2_pos [of 1024] by (simp add: fl_def)

lemma is_digit_zero: "is_digit (CHR ''0'')"
  by (simp add: is_digit_def digit_of_def)


lemma ws_length_Nil [simp]: "ws_length [] = 0"
  by (simp add: ws_length_def unicode_ws3_def)

lemma skip_ws_Nil [simp]: "skip_ws [] = []"
  by (subst skip_ws.simps) simp

text \<open>A character of ASCII that is no white space ends the white space.\<close>

lemma ws_length_ascii:
  assumes "(of_char c :: nat) < 128"
    and "c \<notin> set [CHR 0x09, CHR 0x0A, CHR 0x0B, CHR 0x0C, CHR 0x0D, CHR 0x20]"
  shows "ws_length (c # cs) = 0"
proof -
  have n: "c \<noteq> CHR 0xC2" "c \<noteq> CHR 0xE1" "c \<noteq> CHR 0xE2" "c \<noteq> CHR 0xE3" "c \<noteq> CHR 0xEF"
    using assms(1) by auto
  have 2: "take 2 (c # cs) \<noteq> [CHR 0xC2, CHR 0xA0]"
    using n by (cases cs) auto
  have 3: "take 3 (c # cs) \<notin> set unicode_ws3"
  proof
    assume "take 3 (c # cs) \<in> set unicode_ws3"
    then have "hd (take 3 (c # cs)) \<in> hd ` set unicode_ws3" by (rule imageI)
    then show False using n by (simp add: unicode_ws3_def)
  qed
  show ?thesis using assms(2) 2 3 by (simp add: ws_length_def)
qed

lemma skip_ws_ascii:
  assumes "(of_char c :: nat) < 128"
    and "c \<notin> set [CHR 0x09, CHR 0x0A, CHR 0x0B, CHR 0x0C, CHR 0x0D, CHR 0x20]"
  shows "skip_ws (c # cs) = c # cs"
  by (subst skip_ws.simps) (simp add: ws_length_ascii [OF assms])

lemma is_digit_ascii:
  "is_digit c \<Longrightarrow> (of_char c :: nat) < 128
     \<and> c \<notin> set [CHR 0x09, CHR 0x0A, CHR 0x0B, CHR 0x0C, CHR 0x0D, CHR 0x20]"
  by (auto simp: is_digit_def digit_of_def Let_def split: if_splits)

lemma skip_ws_digit: "is_digit c \<Longrightarrow> skip_ws (c # cs) = c # cs"
  using is_digit_ascii [of c] skip_ws_ascii [of c cs] by blast

lemma skip_ws_minus: "skip_ws (CHR ''-'' # cs) = CHR ''-'' # cs"
  by (rule skip_ws_ascii) simp_all




lemma parseInt_zero: "parseInt ''0'' = Fin 0"
  by (simp add: parseInt_def skip_ws_digit is_digit_zero digit_of_def nat_of_digits_def)

lemma parseFloat_zero: "parseFloat ''0'' = Fin 0"
  by (simp add: parseFloat_def skip_ws_digit is_digit_zero is_digit_def digit_of_def
        nat_of_digits_def pow10_def)

lemma parse_metric_nil: "parse_metric t [] = NaN"
  by (cases t) (simp_all add: parseInt_def parseFloat_def)

lemma metric_value_emitted: "metric_value t d = emitted_value t d"
  by (cases t)
     (simp_all add: emitted_value_def or_zero_def parseInt_zero parseFloat_zero
        split: option.splits)

lemma metric_value_eq [simp]:
  "(\<lambda>d. parseInt (or_zero (steps d))) = metric_value Steps"
  "(\<lambda>d. parseFloat (or_zero (weight d))) = metric_value Weight"
  "(\<lambda>d. parseFloat (or_zero (heartRate d))) = metric_value HeartRate"
  by (simp_all add: fun_eq_iff)

section \<open>Rounding to a double keeps the sign of a whole number\<close>



lemma pow2_0 [simp]: "pow2 0 = 1"
  by (simp add: pow2_def)














section \<open>Evaluation rules\<close>

lemmas fl_eval = fl_def nearest_double_def ulp_def exponent_def round_half_even_def pow2_def
  binade_up.simps binade_down.simps

lemmas ws_eval = skip_ws.simps ws_length_def unicode_ws3_def

lemmas parse_eval = parseInt_def parseFloat_def ws_eval is_digit_def digit_of_def
  nat_of_digits_def pow10_def or_zero_def

lemmas cal_eval = days_from_civil_def shifted_year_def day_of_shifted_year_def day_of_era_def
  year_of_era_def day_of_year_def month_index_def civil_month_def civil_day_def civil_year_def
  MakeDate_def MakeDay_def Day_def TimeWithinDay_def msPerDay_def getDate_def getMonth_def
  getFullYear_def setDate_def setMonth_def setFullYear_def setFullYear3_def
  endOfDesiredMonth_def addMonths_def subMonths_def

lemmas date_eval = parse_ymd_def parse_number_def parse_literal_def days_in_month_def
  isLeapYear_def iso_date_def Date_getTime_def format_MMM_d_def zhCN_month_def digits10.simps
  digit_char_def

section \<open>The summary depends on the positive values only\<close>

lemma average_positive_values:
  "average (getMetricInfo fd t) = average_of t (positive_values t fd)"
proof (cases "fd = []")
  case True
  then show ?thesis
    by (cases t)
       (simp_all add: getMetricInfo_def average_of_def positive_values_def reduce_sum_def)
next
  case False
  then show ?thesis
    unfolding getMetricInfo_def average_of_def positive_values_def Let_def metric_value_eq
    by (cases t) (simp_all del: filter_map length_filter_map)
qed

lemma min_positive_values:
  "min_value (getMinMaxValues fd t) =
     (if positive_values t fd = [] then Fin 0 else Math_min (positive_values t fd))"
proof (cases "fd = []")
  case True
  then show ?thesis by (simp add: getMinMaxValues_def positive_values_def)
next
  case False
  then show ?thesis
    unfolding getMinMaxValues_def positive_values_def Let_def metric_value_eq
    by (cases t) (simp_all del: filter_map length_filter_map)
qed

lemma max_positive_values:
  "max_value (getMinMaxValues fd t) =
     (if positive_values t fd = [] then Fin 0 else Math_max (positive_values t fd))"
proof (cases "fd = []")
  case True
  then show ?thesis by (simp add: getMinMaxValues_def positive_values_def)
next
  case False
  then show ?thesis
    unfolding getMinMaxValues_def positive_values_def Let_def metric_value_eq
    by (cases t) (simp_all del: filter_map length_filter_map)
qed

lemma isDataEmpty_positive_values: "isDataEmpty fd t = (positive_values t fd = [])"
  by (cases t)
     (auto simp: isDataEmpty_def positive_values_def list_ex_iff filter_empty_conv)


lemma positive_values_eligible: "positive_values t fd = eligible t fd"
proof (induction fd)
  case Nil
  show ?case by (simp add: positive_values_def eligible_def)
next
  case (Cons d fd)
  have "metric_field t d = None \<or> metric_field t d = Some [] \<or>
        (\<exists>s. s \<noteq> [] \<and> metric_field t d = Some s)"
    by (cases "metric_field t d") auto
  then show ?case
    using Cons
    by (auto simp: positive_values_def eligible_def
          metric_value_emitted emitted_value_def parse_metric_nil)
qed

section \<open>The sorted records\<close>

lemma mset_insert_cmp: "mset (insert_cmp cmp x ys) = add_mset x (mset ys)"
  by (induction ys) auto

lemma mset_foldr_insert_cmp: "mset (foldr (insert_cmp cmp) xs []) = mset xs"
  by (induction xs) (simp_all add: mset_insert_cmp)

text \<open>Whatever the engine, sorting rearranges the elements and does no more.\<close>

lemma mset_Array_sort: "mset (Array_sort other cmp xs) = mset xs"
  by (simp add: Array_sort_def mset_foldr_insert_cmp)

lemma set_Array_sort: "set (Array_sort other cmp xs) = set xs"
  using mset_Array_sort [of other cmp xs] by (rule mset_eq_setD)

lemma length_Array_sort: "length (Array_sort other cmp xs) = length xs"
  using mset_Array_sort [of other cmp xs] by (rule mset_eq_length)

lemma mset_sortedData: "mset (sortedData eng fd) = mset fd"
  by (simp add: sortedData_def mset_Array_sort)

lemma set_sortedData: "set (sortedData eng fd) = set fd"
  by (simp add: sortedData_def set_Array_sort)

lemma length_sortedData: "length (sortedData eng fd) = length fd"
  by (simp add: sortedData_def length_Array_sort)


lemma sortedData_single: "sortedData eng [r] = [r]"
  using mset_sortedData [of eng "[r]"] by simp







section \<open>Series values\<close>






section \<open>Printing a number with one decimal and reading it back\<close>

lemma digit_of_digit_char: "d < 10 \<Longrightarrow> digit_of 10 (digit_char d) = Some d"
proof -
  assume "d < 10"
  then have "d \<in> {0, 1, 2, 3, 4, 5, 6, 7, 8, 9}" by auto
  then show ?thesis by (auto simp: digit_char_def digit_of_def)
qed

lemma is_digit_digit_char: "d < 10 \<Longrightarrow> is_digit (digit_char d)"
  by (simp add: is_digit_def digit_of_digit_char)

lemma digits10_all_digits: "list_all is_digit (digits10 n)"
  by (induction n rule: digits10.induct) (subst digits10.simps, simp add: is_digit_digit_char)

lemma digits10_not_Nil: "digits10 n \<noteq> []"
  by (subst digits10.simps) simp

lemma nat_of_digits_snoc:
  "nat_of_digits R (ds @ [c]) = nat_of_digits R ds * R + (case digit_of R c of Some d \<Rightarrow> d | None \<Rightarrow> 0)"
  by (simp add: nat_of_digits_def)

lemma nat_of_digits_digits10: "nat_of_digits 10 (digits10 n) = n"
proof (induction n rule: digits10.induct)
  case (1 n)
  show ?case
  proof (cases "n < 10")
    case True
    then show ?thesis
      by (subst digits10.simps) (simp add: nat_of_digits_def digit_of_digit_char)
  next
    case False
    then show ?thesis
      using 1
      by (subst digits10.simps) (simp add: nat_of_digits_snoc digit_of_digit_char)
  qed
qed

lemma is_digit_not_special:
  "is_digit c \<Longrightarrow> c \<noteq> CHR ''-'' \<and> c \<noteq> CHR ''+'' \<and> c \<noteq> CHR ''I'' \<and> c \<noteq> CHR ''.''"
  by (auto simp: is_digit_def digit_of_def)

lemma not_is_digit_dot: "\<not> is_digit (CHR ''.'')"
  by (simp add: is_digit_def digit_of_def)

text \<open>Reading the digits of a number with one decimal, with or without a sign.\<close>

lemma parse_decimal_digits:
  assumes "b < 10" and "S1 = digits10 a @ ''.'' @ [digit_char b]"
  shows "take 8 S1 \<noteq> ''Infinity''"
    and "takeWhile is_digit S1 = digits10 a"
    and "dropWhile is_digit S1 = ''.'' @ [digit_char b]"
    and "nat_of_digits 10 (digits10 a @ [digit_char b]) = a * 10 + b"
    and "is_digit (digit_char b)"
    and "take 1 S1 \<noteq> ''+''" and "take 1 S1 \<noteq> ''-''"
    and "skip_ws S1 = S1"
proof -
  obtain c cs where ds: "digits10 a = c # cs"
    using digits10_not_Nil [of a] by (cases "digits10 a") auto
  have alld: "list_all is_digit (c # cs)" using digits10_all_digits [of a] ds by simp
  then have c: "is_digit c" by simp
  note sp = is_digit_not_special [OF c]
  show "take 8 S1 \<noteq> ''Infinity''" using sp by (simp add: assms(2) ds)
  show "takeWhile is_digit S1 = digits10 a"
    using alld ds not_is_digit_dot by (simp add: assms(2) takeWhile_append list_all_iff)
  show "dropWhile is_digit S1 = ''.'' @ [digit_char b]"
    using alld ds not_is_digit_dot by (simp add: assms(2) dropWhile_append list_all_iff)
  show "nat_of_digits 10 (digits10 a @ [digit_char b]) = a * 10 + b"
    by (simp add: nat_of_digits_snoc nat_of_digits_digits10 digit_of_digit_char [OF assms(1)])
  show "is_digit (digit_char b)" by (rule is_digit_digit_char [OF assms(1)])
  show "take 1 S1 \<noteq> ''+''" "take 1 S1 \<noteq> ''-''" using sp by (simp_all add: assms(2) ds)
  show "skip_ws S1 = S1" using skip_ws_digit [OF c] by (simp add: assms(2) ds)
qed

lemma parseFloat_decimal:
  assumes "b < 10"
  shows "parseFloat (digits10 a @ ''.'' @ [digit_char b]) = fl (real (a * 10 + b) / 10)"
proof -
  define S1 where "S1 = digits10 a @ ''.'' @ [digit_char b]"
  note d = parse_decimal_digits [OF assms S1_def]
  show ?thesis
    unfolding parseFloat_def Let_def S1_def [symmetric] d(8)
    using d digits10_not_Nil [of a] by (simp add: pow10_def)
qed

lemma parseFloat_minus_decimal:
  assumes "b < 10"
  shows "parseFloat (''-'' @ digits10 a @ ''.'' @ [digit_char b]) = fl (- (real (a * 10 + b) / 10))"
proof -
  define S1 where "S1 = digits10 a @ ''.'' @ [digit_char b]"
  note d = parse_decimal_digits [OF assms S1_def]
  have s: "skip_ws (''-'' @ S1) = ''-'' @ S1" using skip_ws_minus by simp
  have t: "take 1 (''-'' @ S1) = ''-''" "drop 1 (''-'' @ S1) = S1" by simp_all
  show ?thesis
    unfolding parseFloat_def Let_def S1_def [symmetric] s t
    using d digits10_not_Nil [of a] by (simp add: pow10_def)
qed

lemma digits10_small: "d < 10 \<Longrightarrow> digits10 d = [digit_char d]"
  by (subst digits10.simps) simp

lemma toFixed1:
  assumes "\<bar>x\<bar> < 10 ^ 21"
  shows "toFixed 1 x = Some ((if x < 0 then ''-'' else [])
            @ digits10 (nat \<lfloor>\<bar>x\<bar> * 10 + 1 / 2\<rfloor> div 10) @ ''.''
            @ [digit_char (nat \<lfloor>\<bar>x\<bar> * 10 + 1 / 2\<rfloor> mod 10)])"
  using assms by (simp add: toFixed_def Let_def pad_digits_def digits10_small)

text \<open>
  \<open>parseFloat(v.toFixed(1))\<close> rounds to the nearest tenth: the string has the digits of
  the tenth nearest to the double, and reading it gives the double nearest to that
  tenth.
\<close>

lemma parseFloat_toFixed1_Fin:
  assumes "\<bar>x\<bar> < 10 ^ 21"
  shows "parseFloat_toFixed1 (Fin x) = fl (nearest_tenth x)"
proof -
  let ?n = "nat \<lfloor>\<bar>x\<bar> * 10 + 1 / 2\<rfloor>"
  have nn: "0 \<le> \<lfloor>\<bar>x\<bar> * 10 + 1 / 2\<rfloor>" by simp
  have m: "?n mod 10 < 10" by simp
  have r: "real ((?n div 10) * 10 + ?n mod 10) = of_int \<lfloor>\<bar>x\<bar> * 10 + 1 / 2\<rfloor>"
    using nn by simp
  show ?thesis
  proof (cases "x < 0")
    case True
    have "parseFloat_toFixed1 (Fin x)
            = parseFloat (''-'' @ digits10 (?n div 10) @ ''.'' @ [digit_char (?n mod 10)])"
      using True by (simp only: parseFloat_toFixed1.simps toFixed1 [OF assms] option.case if_True)
    also have "\<dots> = fl (- (real ((?n div 10) * 10 + ?n mod 10) / 10))"
      by (rule parseFloat_minus_decimal [OF m])
    also have "\<dots> = fl (- (of_int \<lfloor>\<bar>x\<bar> * 10 + 1 / 2\<rfloor> / 10))" by (simp only: r)
    finally show ?thesis using True by (simp add: nearest_tenth_def)
  next
    case False
    have "parseFloat_toFixed1 (Fin x)
            = parseFloat ([] @ digits10 (?n div 10) @ ''.'' @ [digit_char (?n mod 10)])"
      using False by (simp only: parseFloat_toFixed1.simps toFixed1 [OF assms] option.case if_False)
    also have "\<dots> = fl (real ((?n div 10) * 10 + ?n mod 10) / 10)"
      unfolding append_Nil by (rule parseFloat_decimal [OF m])
    also have "\<dots> = fl (of_int \<lfloor>\<bar>x\<bar> * 10 + 1 / 2\<rfloor> / 10)" by (simp only: r)
    finally show ?thesis using False by (simp add: nearest_tenth_def)
  qed
qed

lemma parseFloat_NaN: "parseFloat ''NaN'' = NaN"
  by (simp add: parse_eval)

lemma parseFloat_Infinity: "parseFloat ''Infinity'' = PInf"
  by (simp add: parse_eval)

lemma parseFloat_minus_Infinity: "parseFloat ''-Infinity'' = NInf"
  by (simp add: parse_eval)

lemma parseFloat_toFixed1_rounded: "parseFloat_toFixed1 v = rounded Weight v"
proof (cases v)
  case (Fin x)
  show ?thesis
  proof (cases "\<bar>x\<bar> < 10 ^ 21")
    case True
    then show ?thesis using parseFloat_toFixed1_Fin [OF True] by (simp add: Fin)
  next
    case False
    then show ?thesis by (simp add: Fin toFixed_def)
  qed
qed (simp_all add: parseFloat_NaN parseFloat_Infinity parseFloat_minus_Infinity)

lemma Math_round_rounded: "t \<noteq> Weight \<Longrightarrow> Math_round v = rounded t v"
  by (cases t; cases v) simp_all

section \<open>The average is the rounded mean\<close>

lemma average_of_rounded:
  "average_of t vs = (if vs = [] then Fin 0 else rounded t (double_mean vs))"
proof (cases "vs = []")
  case True
  then show ?thesis by (cases t) (simp_all add: average_of_def reduce_sum_def)
next
  case False
  then have l: "length vs \<noteq> 0" by simp
  show ?thesis
    using False l
    by (cases t)
       (simp_all add: average_of_def double_mean_def double_sum_def reduce_sum_def
          parseFloat_toFixed1_rounded Math_round_rounded del: parseFloat_toFixed1.simps)
qed

lemma eligible_positive: "v \<in> set (eligible t fd) \<Longrightarrow> js_gt0 v"
  by (simp add: eligible_def)

lemma isDataEmpty_eligible: "isDataEmpty fd t = (eligible t fd = [])"
  by (simp add: isDataEmpty_positive_values positive_values_eligible)

lemma average_eligible:
  "average (getMetricInfo fd t) =
     (if eligible t fd = [] then Fin 0 else rounded t (double_mean (eligible t fd)))"
  by (simp add: average_positive_values positive_values_eligible average_of_rounded)

text \<open>For steps and heart rate the average is a whole number.\<close>

lemma rounded_idem: "t \<noteq> Weight \<Longrightarrow> rounded t (rounded t v) = rounded t v"
  by (cases t; cases v) simp_all

lemma average_obeys_rounding:
  "t \<noteq> Weight \<Longrightarrow> obeys_rounding t (average (getMetricInfo fd t))"
  by (cases t) (simp_all add: obeys_rounding_def average_eligible rounded_idem)

section \<open>The calendar: a day number and its date\<close>

text \<open>
  The date computed for a day number is that day's date: counting from the first of its
  month gives the day number back.  So \<open>setDate\<close> with the day of the month plus
  \<open>k\<close> moves a time by \<open>k\<close> days, and the seven-day cutoff is seven days before
  \<open>now\<close>.
\<close>

lemma div_succ_le: "0 < k \<Longrightarrow> ((d::int) + 1) div k \<le> d div k + 1"
proof -
  assume k: "0 < k"
  have "(d + 1) div k \<le> (d + k) div k" using k by (intro zdiv_mono1) simp_all
  also have "\<dots> = d div k + 1" using k by simp
  finally show ?thesis .
qed













lemma year_start_mono_step: "year_start y \<le> year_start (y + 1)"
proof -
  have "y div 4 \<le> (y + 1) div 4" by (intro zdiv_mono1) simp_all
  moreover have "(y + 1) div 100 \<le> y div 100 + 1" by (rule div_succ_le) simp
  ultimately show ?thesis by (simp add: year_start_def)
qed








section \<open>The Window Filter as a filter\<close>

lemma filteredData_cutoff:
  "filteredData now timePeriod healthData =
     (case cutoff timePeriod now of None \<Rightarrow> healthData
      | Some c \<Rightarrow> filter (\<lambda>r. on_or_after (date r) c) healthData)"
proof (cases "healthData = []")
  case True
  then show ?thesis by (simp add: filteredData_def split: option.splits)
next
  case False
  then show ?thesis
    unfolding filteredData_def cutoff_def on_or_after_def Let_def by simp
qed


section \<open>When the Series Builder returns\<close>

lemma map_throwing_Inr:
  "\<forall>x\<in>set xs. \<exists>y. f x = Inr y \<Longrightarrow> \<exists>ys. map_throwing f xs = Inr ys \<and> length ys = length xs"
  by (induction xs) auto

lemma map_throwing_Inl:
  "x \<in> set xs \<Longrightarrow> f x = Inl e \<Longrightarrow> \<exists>e'. map_throwing f xs = Inl e'"
  by (induction xs) (auto split: sum.splits)

lemma format_parsed: "parse_ymd s \<noteq> None \<Longrightarrow> \<exists>l. format_MMM_d (parse_ymd s) = Inr l"
  by (auto simp: format_MMM_d_def)

lemma series_lengths:
  assumes "\<forall>r\<in>set fd. parse_ymd (date r) \<noteq> None"
  shows "\<exists>ls vs. series_labels eng fd t = Inr ls \<and> series_values eng fd t = Inr vs
           \<and> length ls = length fd \<and> length vs = length fd"
proof (cases "fd = []")
  case True
  then show ?thesis
    by (simp add: series_labels_def series_values_def chart_prop_def chartData_def)
next
  case False
  have "\<forall>r\<in>set (sortedData eng fd). \<exists>l. format_MMM_d (parse_ymd (date r)) = Inr l"
    using assms format_parsed by (simp add: set_sortedData)
  from map_throwing_Inr [OF this]
  obtain ls where ls: "map_throwing (\<lambda>item. format_MMM_d (parse_ymd (date item))) (sortedData eng fd) = Inr ls"
    and l: "length ls = length fd"
    by (auto simp: length_sortedData)
  show ?thesis
    using False ls l
    by (cases t)
       (simp_all add: series_labels_def series_values_def chart_prop_def chartData_def Let_def
          length_sortedData)
qed

lemma series_fails:
  assumes "r \<in> set fd" and "parse_ymd (date r) = None"
  shows "chartData eng fd t = Inl RangeError"
proof -
  have ne: "fd \<noteq> []" using assms(1) by auto
  have "r \<in> set (sortedData eng fd)" using assms(1) by (simp add: set_sortedData)
  moreover have "format_MMM_d (parse_ymd (date r)) = Inl RangeError"
    using assms(2) by (simp add: format_MMM_d_def)
  ultimately obtain e where
    "map_throwing (\<lambda>item. format_MMM_d (parse_ymd (date item))) (sortedData eng fd) = Inl e"
    using map_throwing_Inl [of r "sortedData eng fd" "\<lambda>item. format_MMM_d (parse_ymd (date item))"]
    by blast
  moreover have "e = RangeError" by (cases e) simp
  ultimately show ?thesis using ne by (simp add: chartData_def Let_def)
qed

lemma bounded_window_parsed:
  assumes "cutoff timePeriod now = Some c" and "r \<in> set (filteredData now timePeriod healthData)"
  shows "parse_ymd (date r) \<noteq> None"
  using assms by (auto simp: filteredData_cutoff on_or_after_def split: option.splits)

lemma bounded_window_never_aborts:
  assumes "cutoff timePeriod now = Some c"
  shows "\<exists>ls vs. series_labels eng (filteredData now timePeriod healthData) t = Inr ls
           \<and> series_values eng (filteredData now timePeriod healthData) t = Inr vs
           \<and> length ls = length (filteredData now timePeriod healthData)
           \<and> length vs = length (filteredData now timePeriod healthData)"
  using bounded_window_parsed [OF assms] by (intro series_lengths) blast

lemma unit_getMetricInfo:
  "fd \<noteq> [] \<Longrightarrow> unit (getMetricInfo fd t) =
     (case t of Steps \<Rightarrow> steps_unit | Weight \<Rightarrow> ''kg'' | HeartRate \<Rightarrow> ''BPM'')"
  by (cases t) (simp_all add: getMetricInfo_def Let_def)

section \<open>Dates of the standard's form\<close>










section \<open>Values used in the examples\<close>

lemma parse_ymd_20250310: "parse_ymd ''2025-03-10'' = Some 1741564800000"
  by (simp add: date_eval parse_eval cal_eval)


lemma cutoff_7D_20250315: "cutoff ''7D'' 1742040000000 = Some 1741435200000"
  by (simp add: cutoff_def cal_eval)

lemma parse_ymd_not_a_date: "parse_ymd ''not-a-date'' = None"
  by (simp add: parse_ymd_def parse_number_def is_digit_def digit_of_def)

lemma format_20250310:
  "format_MMM_d (Some 1741564800000)
     = Inr [CHR ''3'', CHR 0xE6, CHR 0x9C, CHR 0x88, CHR '' '', CHR ''1'', CHR ''0'']"
  by (simp add: date_eval cal_eval)

lemma fl_7000: "fl 7000 = Fin 7000"
  by (simp add: fl_eval)

lemma parseInt_7000_fl: "parseInt ''7000'' = fl 7000"
  by (simp add: parse_eval)

lemma parseInt_7000: "parseInt ''7000'' = Fin 7000"
  by (simp only: parseInt_7000_fl fl_7000)

lemma chartData_20250310:
  "chartData eng [point ''2025-03-10'' (Some ''7000'') None None] Steps
     = Inr (Some \<lparr>labels = [[CHR ''3'', CHR 0xE6, CHR 0x9C, CHR 0x88, CHR '' '', CHR ''1'', CHR ''0'']],
                  datasets = [\<lparr>legend = steps_legend, data = [Fin 7000]\<rparr>]\<rparr>)"
  by (simp add: chartData_def sortedData_single point_def parse_ymd_20250310
        format_20250310 parseInt_7000 or_zero_def)

lemma fl_703: "fl 70.3 = Fin (4946922715689779 / 70368744177664)"
  by (simp add: fl_eval)

section \<open>Claim C1: ingestion of a record with an unparseable date\<close>

text \<open>
  Claim C1 says that ingestion of a record whose date cannot be parsed fails with
  \<open>InvalidRecord\<close> and appends nothing.  Neither variant of \<open>POST\<close> looks at the date:
  the record with the date \<open>not-a-date\<close>, which \<open>parse\<close> of date-fns cannot read
  and which is not of the form that the standard makes \<open>new Date\<close> read (an engine
  that reads nothing else gives the Invalid Date for it), is appended and the answer is
  the success message.
\<close>

theorem ingestion_unparseable_date_counterexample:
  "parse_ymd ''not-a-date'' = None
   \<and> \<not> iso_date ''not-a-date''
   \<and> Date_getTime plain_engine ''not-a-date'' = None
   \<and> POST (Body (point ''not-a-date'' None None None)) (Some (JsonArray []))
       = (Saved_200, Some (JsonArray [point ''not-a-date'' None None None]))
   \<and> POST_data_dir (Body (point ''not-a-date'' None None None)) (True, Some (JsonArray []))
       = (Saved_200, (True, Some (JsonArray [point ''not-a-date'' None None None])))"
  by (simp add: POST_def POST_data_dir_def parse_ymd_def parse_number_def Date_getTime_def
        iso_date_def plain_engine_def is_digit_def digit_of_def)

text \<open>
  Claim C1, amended: for every raw record submitted, whatever its date string, ingestion
  on a readable collection succeeds and the stored collection becomes the old one with
  the record appended unchanged; there is no date validation and no \<open>InvalidRecord\<close>.
  Ingestion fails only when the stored file is unreadable (or the request body is), and
  then the stored file is as it was.
\<close>

theorem ingestion_appends_any_record:
  "(collection file = Some xs \<longrightarrow>
       POST (Body p) file = (Saved_200, Some (JsonArray (xs @ [p])))
     \<and> POST_data_dir (Body p) (True, file) = (Saved_200, (True, Some (JsonArray (xs @ [p]))))
     \<and> POST_data_dir (Body p) (False, file) = (Saved_200, (True, Some (JsonArray [p]))))
   \<and> (collection file = None \<longrightarrow>
       POST (Body p) file = (Failed_500, file)
     \<and> POST_data_dir (Body p) (True, file) = (Failed_500, (True, file)))
   \<and> POST BadBody file = (Failed_500, file)
   \<and> POST_data_dir BadBody (dir, file) = (Failed_500, (dir, file))"
  by (auto simp: collection_def POST_def POST_data_dir_def split: option.splits stored.splits)

theorem ingestion_appends_any_record_witness:
  "collection (Some (JsonArray [point ''2025-01-01'' (Some ''5000'') None None])) =
     Some [point ''2025-01-01'' (Some ''5000'') None None]
   \<and> POST (Body (point ''not-a-date'' None None None))
        (Some (JsonArray [point ''2025-01-01'' (Some ''5000'') None None]))
       = (Saved_200, Some (JsonArray [point ''2025-01-01'' (Some ''5000'') None None,
                                      point ''not-a-date'' None None None]))
   \<and> collection (Some (Unreadable :: HealthDataPoint stored)) = None
   \<and> POST (Body (point ''not-a-date'' None None None)) (Some Unreadable)
       = (Failed_500, Some Unreadable)"
proof -
  have c: "collection (Some (JsonArray [point ''2025-01-01'' (Some ''5000'') None None])) =
     Some [point ''2025-01-01'' (Some ''5000'') None None]"
    by (simp add: collection_def)
  have u: "collection (Some (Unreadable :: HealthDataPoint stored)) = None"
    by (simp add: collection_def)
  from c ingestion_appends_any_record
         [of "Some (JsonArray [point ''2025-01-01'' (Some ''5000'') None None])"
             "[point ''2025-01-01'' (Some ''5000'') None None]"
             "point ''not-a-date'' None None None"]
  have a: "POST (Body (point ''not-a-date'' None None None))
        (Some (JsonArray [point ''2025-01-01'' (Some ''5000'') None None]))
       = (Saved_200, Some (JsonArray [point ''2025-01-01'' (Some ''5000'') None None,
                                      point ''not-a-date'' None None None]))"
    by simp
  from u ingestion_appends_any_record
         [of "Some Unreadable" _ "point ''not-a-date'' None None None"]
  have b: "POST (Body (point ''not-a-date'' None None None)) (Some Unreadable)
       = (Failed_500, Some Unreadable)"
    by blast
  from c a u b show ?thesis by blast
qed

section \<open>Claim C2: retrieval leaves the stored collection unchanged\<close>

lemma generateTestData_loop_length:
  "length (generateTestData_loop rnd days i currentDate acc) = length acc + (days - i)"
proof (induction rnd days i currentDate acc rule: generateTestData_loop.induct)
  case (1 rnd days i currentDate acc)
  show ?case
  proof (cases "i < days")
    case True
    then show ?thesis
      using "1.IH" [OF True refl refl refl refl]
      by (subst generateTestData_loop.simps) (simp add: Let_def)
  next
    case False
    then show ?thesis by (subst generateTestData_loop.simps) simp
  qed
qed

lemma generateTestData_length: "length (generateTestData rnd startDate days) = days"
  by (simp add: generateTestData_def generateTestData_loop_length)

text \<open>
  Claim C2 says that retrieval returns the stored collection and leaves it unchanged.
  \<open>GET\<close> calls \<open>gen()\<close> before it reads: whatever was stored is replaced by thirty
  generated records, and those are what is returned.  A collection of one record is
  neither returned nor kept.
\<close>

theorem retrieval_overwrites_collection:
  "snd (GET rnd file) = Some (JsonArray (generateTestData rnd (MakeDate (days_from_civil 2025 1 2) 0) 30))
   \<and> fst (GET rnd file) = Data_200 (generateTestData rnd (MakeDate (days_from_civil 2025 1 2) 0) 30)
   \<and> length (generateTestData rnd (MakeDate (days_from_civil 2025 1 2) 0) 30) = 30
   \<and> snd (GET rnd (Some (JsonArray [r]))) \<noteq> Some (JsonArray [r])
   \<and> fst (GET rnd (Some (JsonArray [r]))) \<noteq> Data_200 [r]
   \<and> snd (GET rnd None) \<noteq> None"
proof -
  let ?g = "generateTestData rnd (MakeDate (days_from_civil 2025 1 2) 0) 30"
  have l: "length ?g = 30" by (rule generateTestData_length)
  then have ne: "?g \<noteq> [r]" by auto
  have g: "GET rnd f = (Data_200 ?g, Some (JsonArray ?g))" for f
    by (simp add: GET_def gen_def Let_def)
  show ?thesis using l ne by (simp add: g)
qed

section \<open>Claim C3: the Window Filter\<close>





section \<open>Claim C4: the average and the no-data state\<close>

lemma fl_1: "fl 1 = Fin 1"
  by (simp add: fl_eval)

lemma fl_2: "fl 2 = Fin 2"
  by (simp add: fl_eval)

lemma fl_3: "fl 3 = Fin 3"
  by (simp add: fl_eval)

lemma fl_3_2: "fl (3 / 2) = Fin (3 / 2)"
  by (simp add: fl_eval)

lemma parseInt_1_fl: "parseInt ''1'' = fl 1"
  by (simp add: parse_eval)

lemma parseInt_2_fl: "parseInt ''2'' = fl 2"
  by (simp add: parse_eval)

lemma parseInt_1: "parseInt ''1'' = Fin 1"
  by (simp only: parseInt_1_fl fl_1)

lemma parseInt_2: "parseInt ''2'' = Fin 2"
  by (simp only: parseInt_2_fl fl_2)

lemma eligible_steps_1_2:
  "eligible Steps [point ''2025-01-01'' (Some ''1'') None None,
                   point ''2025-01-02'' (Some ''2'') None None] = map Fin [1, 2]"
  by (simp add: eligible_def point_def parseInt_1 parseInt_2)

lemma double_mean_1_2: "double_mean (map Fin [1, 2]) = Fin (3 / 2)"
  using fl_1 fl_3 fl_3_2 by (simp add: double_mean_def double_sum_def)

lemma average_steps_1_2:
  "average (getMetricInfo [point ''2025-01-01'' (Some ''1'') None None,
                           point ''2025-01-02'' (Some ''2'') None None] Steps) = Fin 2"
  using double_mean_1_2 by (simp add: average_eligible eligible_steps_1_2)

text \<open>
  Claim C4 says that the average equals the arithmetic mean of the eligible values.
  \<open>getMetricInfo\<close> rounds the mean: for the step counts \<open>1\<close> and \<open>2\<close> the mean is
  \<open>3/2\<close> and the average it returns, and the card shows, is \<open>2\<close>.
\<close>

theorem average_not_mean_counterexample:
  "eligible Steps [point ''2025-01-01'' (Some ''1'') None None,
                   point ''2025-01-02'' (Some ''2'') None None] = map Fin [1, 2]
   \<and> arith_mean [1, 2] = 3 / 2
   \<and> double_mean (map Fin [1, 2]) = Fin (3 / 2)
   \<and> average (getMetricInfo [point ''2025-01-01'' (Some ''1'') None None,
                             point ''2025-01-02'' (Some ''2'') None None] Steps) = Fin 2
   \<and> average (getMetricInfo [point ''2025-01-01'' (Some ''1'') None None,
                             point ''2025-01-02'' (Some ''2'') None None] Steps)
       \<noteq> Fin (arith_mean [1, 2])"
  using double_mean_1_2 by (simp add: eligible_steps_1_2 average_steps_1_2 arith_mean_def)

text \<open>
  Claim C4, amended: the average is the mean of the eligible values (the values of the
  present fields that are above zero), computed in double arithmetic (the values added
  from the left, the sum divided by their count, each result rounded to the nearest
  double) and then rounded by the rounding policy: to the nearest whole number, a tie
  going up, for steps and heart rate; for weight to the tenth nearest to the exact value
  of the double, read back as a double, a mean from \<open>10^21\<close> on being left as it is.
  When there is no eligible value, as for an empty collection or one with absent values
  only, the average, the least and the greatest value are all shown as no data, and
  only then.
\<close>

theorem average_is_rounded_mean:
  "average (getMetricInfo fd t)
     = (if eligible t fd = [] then Fin 0 else rounded t (double_mean (eligible t fd)))
   \<and> average_card False fd t
     = (if eligible t fd = [] then NoData
        else Shown (rounded t (double_mean (eligible t fd))) (unit (getMetricInfo fd t)))
   \<and> (min_card False fd t = NoData) = (eligible t fd = [])
   \<and> (max_card False fd t = NoData) = (eligible t fd = [])
   \<and> isDataEmpty fd t = (eligible t fd = [])
   \<and> eligible t [] = []"
proof -
  have a: "average (getMetricInfo fd t)
     = (if eligible t fd = [] then Fin 0 else rounded t (double_mean (eligible t fd)))"
    by (rule average_eligible)
  have b: "average_card False fd t
     = (if eligible t fd = [] then NoData
        else Shown (rounded t (double_mean (eligible t fd))) (unit (getMetricInfo fd t)))"
    by (simp add: average_card_def metric_card_def isDataEmpty_eligible a)
  have c: "(min_card False fd t = NoData) = (eligible t fd = [])"
    by (simp add: min_card_def metric_card_def isDataEmpty_eligible)
  have d: "(max_card False fd t = NoData) = (eligible t fd = [])"
    by (simp add: max_card_def metric_card_def isDataEmpty_eligible)
  have e: "eligible t [] = []" by (simp add: eligible_def)
  from a b c d e isDataEmpty_eligible [of fd t] show ?thesis by blast
qed

text \<open>
  The weights \<open>70.35\<close> and \<open>70.5\<close>, and a record with no weight between them.  The
  double read from \<open>70.35\<close> lies just below it, so alone it is rounded to \<open>70.3\<close>; the
  mean of the two weights, \<open>70.425\<close>, is rounded to \<open>70.4\<close>.
\<close>

lemma fl_7035: "fl 70.35 = Fin (2475220576449331 / 35184372088832)"
  by (simp add: fl_eval)

lemma fl_705: "fl 70.5 = Fin 70.5"
  by (simp add: fl_eval)

lemma fl_704: "fl 70.4 = Fin (2476979795053773 / 35184372088832)"
  by (simp add: fl_eval)

lemma parseFloat_7035_fl: "parseFloat ''70.35'' = fl 70.35"
  by (simp add: parse_eval)

lemma parseFloat_705_fl: "parseFloat ''70.5'' = fl 70.5"
  by (simp add: parse_eval)

lemma parseFloat_7035: "parseFloat ''70.35'' = Fin (2475220576449331 / 35184372088832)"
  by (simp only: parseFloat_7035_fl fl_7035)

lemma parseFloat_705: "parseFloat ''70.5'' = Fin 70.5"
  by (simp only: parseFloat_705_fl fl_705)

lemma eligible_weight_7035:
  "eligible Weight [point ''2025-01-01'' None (Some ''70.35'') None]
     = [Fin (2475220576449331 / 35184372088832)]"
  by (simp add: eligible_def point_def parseFloat_7035)

lemma double_mean_7035:
  "double_mean [Fin (2475220576449331 / 35184372088832)]
     = Fin (2475220576449331 / 35184372088832)"
proof -
  have "fl (2475220576449331 / 35184372088832) = Fin (2475220576449331 / 35184372088832)"
    by (simp add: fl_eval)
  then show ?thesis by (simp add: double_mean_def double_sum_def)
qed

lemma rounded_weight_7035:
  "rounded Weight (Fin (2475220576449331 / 35184372088832)) = fl 70.3"
  by (simp add: nearest_tenth_def)

lemma eligible_weights:
  "eligible Weight [point ''2025-01-01'' None (Some ''70.35'') None,
                    point ''2025-01-02'' None None None,
                    point ''2025-01-03'' None (Some ''70.5'') None]
     = [Fin (2475220576449331 / 35184372088832), Fin 70.5]"
  using parseFloat_7035 parseFloat_705 by (simp add: eligible_def point_def)

lemma double_mean_weights:
  "double_mean [Fin (2475220576449331 / 35184372088832), Fin 70.5]
     = Fin (4955718808711987 / 70368744177664)"
proof -
  have a: "fl (2475220576449331 / 35184372088832) = Fin (2475220576449331 / 35184372088832)"
    by (simp add: fl_eval)
  have b: "fl (2475220576449331 / 35184372088832 + 70.5) = Fin (4955718808711987 / 35184372088832)"
    by (simp add: fl_eval)
  have c: "fl (4955718808711987 / 35184372088832 / 2) = Fin (4955718808711987 / 70368744177664)"
    by (simp add: fl_eval)
  from a b c show ?thesis by (simp add: double_mean_def double_sum_def)
qed

lemma rounded_weights:
  "rounded Weight (Fin (4955718808711987 / 70368744177664)) = fl 70.4"
  by (simp add: nearest_tenth_def)

theorem average_is_rounded_mean_witness:
  "average (getMetricInfo [point ''2025-01-01'' None (Some ''70.35'') None] Weight) = fl 70.3
   \<and> fl 70.3 = Fin (4946922715689779 / 70368744177664)
   \<and> average (getMetricInfo [point ''2025-01-01'' None (Some ''70.35'') None,
                             point ''2025-01-02'' None None None,
                             point ''2025-01-03'' None (Some ''70.5'') None] Weight) = fl 70.4
   \<and> fl 70.4 = Fin (2476979795053773 / 35184372088832)
   \<and> eligible Weight [point ''2025-01-02'' None None None] = []
   \<and> average_card False [point ''2025-01-02'' None None None] Weight = NoData
   \<and> min_card False [point ''2025-01-02'' None None None] Weight = NoData
   \<and> max_card False [point ''2025-01-02'' None None None] Weight = NoData"
proof -
  let ?one = "[point ''2025-01-01'' None (Some ''70.35'') None]"
  let ?fd = "[point ''2025-01-01'' None (Some ''70.35'') None,
              point ''2025-01-02'' None None None,
              point ''2025-01-03'' None (Some ''70.5'') None]"
  let ?none = "[point ''2025-01-02'' None None None]"
  from average_is_rounded_mean [of ?one Weight]
  have "average (getMetricInfo ?one Weight)
          = (if eligible Weight ?one = [] then Fin 0
             else rounded Weight (double_mean (eligible Weight ?one)))"
    by blast
  then have a: "average (getMetricInfo ?one Weight) = fl 70.3"
    by (simp only: eligible_weight_7035 double_mean_7035 rounded_weight_7035 list.simps if_False)
  from average_is_rounded_mean [of ?fd Weight]
  have "average (getMetricInfo ?fd Weight)
          = (if eligible Weight ?fd = [] then Fin 0
             else rounded Weight (double_mean (eligible Weight ?fd)))"
    by blast
  then have b: "average (getMetricInfo ?fd Weight) = fl 70.4"
    by (simp only: eligible_weights double_mean_weights rounded_weights list.simps if_False)
  have e: "eligible Weight ?none = []" by (simp add: eligible_def point_def)
  from average_is_rounded_mean [of ?none Weight] e
  have n: "average_card False ?none Weight = NoData" "min_card False ?none Weight = NoData"
    "max_card False ?none Weight = NoData"
    by simp_all
  from a b e n fl_703 fl_704 show ?thesis by blast
qed

section \<open>Claim C5: the value of a record in the series\<close>










section \<open>Claim C6: the series is sorted by date, stably, on a copy\<close>
















section \<open>Claim C7: the rounding policy on the summary\<close>

lemma fl_7025: "fl 70.25 = Fin 70.25"
  by (simp add: fl_eval)

lemma fl_725: "fl 72.5 = Fin 72.5"
  by (simp add: fl_eval)

lemma parseFloat_7025_fl: "parseFloat ''70.25'' = fl 70.25"
  by (simp add: parse_eval)

lemma parseFloat_725_fl: "parseFloat ''72.5'' = fl 72.5"
  by (simp add: parse_eval)

lemma parseFloat_7025: "parseFloat ''70.25'' = Fin 70.25"
  by (simp only: parseFloat_7025_fl fl_7025)

lemma parseFloat_725: "parseFloat ''72.5'' = Fin 72.5"
  by (simp only: parseFloat_725_fl fl_725)

lemma positive_values_weight_7025:
  "positive_values Weight [point ''2025-01-01'' None (Some ''70.25'') None] = [Fin 70.25]"
  using parseFloat_7025 by (simp add: positive_values_def point_def or_zero_def)

lemma positive_values_heartRate_725:
  "positive_values HeartRate [point ''2025-01-01'' None None (Some ''72.5'')] = [Fin 72.5]"
  using parseFloat_725 by (simp add: positive_values_def point_def or_zero_def)

lemma double_mean_7025: "double_mean [Fin 70.25] = Fin 70.25"
  using fl_7025 by (simp add: double_mean_def double_sum_def)

lemma rounded_weight_7025: "rounded Weight (Fin 70.25) = fl 70.3"
  by (simp add: nearest_tenth_def)

lemma rounded_weight_703: "rounded Weight (fl 70.3) = fl 70.3"
  by (simp add: fl_703 nearest_tenth_def)

lemma average_weight_7025:
  "average (getMetricInfo [point ''2025-01-01'' None (Some ''70.25'') None] Weight) = fl 70.3"
  by (simp only: average_positive_values positive_values_weight_7025 average_of_rounded
        double_mean_7025 rounded_weight_7025 list.simps if_False)

text \<open>
  Claim C7 says that the average, the least and the greatest value all obey the rounding
  policy.  \<open>getMetricInfo\<close> rounds the average (lemmas \<open>average_eligible\<close> and
  \<open>average_obeys_rounding\<close>), but \<open>getMinMaxValues\<close> returns the least and the
  greatest parsed value as they are: for the single weight \<open>70.25\<close> the average shown
  is \<open>70.3\<close>, the double nearest to it, while the least and the greatest value shown
  are \<open>70.25\<close>, with two decimals, and for the single heart rate \<open>72.5\<close> the greatest
  value shown is \<open>72.5\<close>, not a whole number.
\<close>

theorem min_max_not_rounded:
  "min_card False [point ''2025-01-01'' None (Some ''70.25'') None] Weight = Shown (Fin 70.25) ''kg''
   \<and> max_card False [point ''2025-01-01'' None (Some ''70.25'') None] Weight = Shown (Fin 70.25) ''kg''
   \<and> \<not> obeys_rounding Weight (Fin 70.25)
   \<and> average_card False [point ''2025-01-01'' None (Some ''70.25'') None] Weight = Shown (fl 70.3) ''kg''
   \<and> obeys_rounding Weight (fl 70.3)
   \<and> min_card False [point ''2025-01-01'' None None (Some ''72.5'')] HeartRate = Shown (Fin 72.5) ''BPM''
   \<and> max_card False [point ''2025-01-01'' None None (Some ''72.5'')] HeartRate = Shown (Fin 72.5) ''BPM''
   \<and> \<not> obeys_rounding HeartRate (Fin 72.5)"
proof -
  have w: "min_value (getMinMaxValues [point ''2025-01-01'' None (Some ''70.25'') None] Weight) = Fin 70.25"
          "max_value (getMinMaxValues [point ''2025-01-01'' None (Some ''70.25'') None] Weight) = Fin 70.25"
    by (simp_all add: min_positive_values max_positive_values positive_values_weight_7025
          Math_min_def Math_max_def)
  have h: "min_value (getMinMaxValues [point ''2025-01-01'' None None (Some ''72.5'')] HeartRate) = Fin 72.5"
          "max_value (getMinMaxValues [point ''2025-01-01'' None None (Some ''72.5'')] HeartRate) = Fin 72.5"
    by (simp_all add: min_positive_values max_positive_values positive_values_heartRate_725
          Math_min_def Math_max_def)
  have e: "\<not> isDataEmpty [point ''2025-01-01'' None (Some ''70.25'') None] Weight"
          "\<not> isDataEmpty [point ''2025-01-01'' None None (Some ''72.5'')] HeartRate"
    by (simp_all add: isDataEmpty_positive_values positive_values_weight_7025
          positive_values_heartRate_725)
  have r1: "\<not> obeys_rounding Weight (Fin 70.25)"
    unfolding obeys_rounding_def rounded_weight_7025 by (simp add: fl_703)
  have r2: "obeys_rounding Weight (fl 70.3)"
    unfolding obeys_rounding_def by (rule rounded_weight_703)
  have r3: "\<not> obeys_rounding HeartRate (Fin 72.5)"
    by (simp add: obeys_rounding_def)
  show ?thesis
    using w h e r1 r2 r3 average_weight_7025
    by (simp add: min_card_def max_card_def average_card_def metric_card_def unit_getMetricInfo)
qed

section \<open>Claim C8: a stored record with an unparseable date\<close>

text \<open>
  Claim C8 says that a stored record with an unparseable date is skipped by the
  derivation under every window selector and never aborts it.  Under the bounded
  selectors the record fails the comparison with the cutoff and is dropped (lemma
  \<open>bounded_window_never_aborts\<close>).  Under the unbounded selector the filter returns the
  collection as it is, \<open>format\<close> throws a \<open>RangeError\<close> on the record's Invalid Date,
  and no chart is produced for the other records either, whatever the engine makes of
  the string.
\<close>

theorem unparseable_date_aborts_unbounded_series:
  "parse_ymd ''not-a-date'' = None
   \<and> filteredData 1742040000000 ''ALL''
        [point ''not-a-date'' (Some ''5000'') None None, point ''2025-03-10'' (Some ''7000'') None None]
       = [point ''not-a-date'' (Some ''5000'') None None, point ''2025-03-10'' (Some ''7000'') None None]
   \<and> chartData eng [point ''not-a-date'' (Some ''5000'') None None,
                 point ''2025-03-10'' (Some ''7000'') None None] Steps = Inl RangeError
   \<and> chart_prop eng [point ''not-a-date'' (Some ''5000'') None None,
                  point ''2025-03-10'' (Some ''7000'') None None] Steps = Inl RangeError
   \<and> filteredData 1742040000000 ''7D''
        [point ''not-a-date'' (Some ''5000'') None None, point ''2025-03-10'' (Some ''7000'') None None]
       = [point ''2025-03-10'' (Some ''7000'') None None]
   \<and> chartData eng [point ''2025-03-10'' (Some ''7000'') None None] Steps
       = Inr (Some \<lparr>labels = [[CHR ''3'', CHR 0xE6, CHR 0x9C, CHR 0x88, CHR '' '', CHR ''1'', CHR ''0'']],
                    datasets = [\<lparr>legend = steps_legend, data = [Fin 7000]\<rparr>]\<rparr>)"
proof -
  let ?bad = "point ''not-a-date'' (Some ''5000'') None None"
  let ?good = "point ''2025-03-10'' (Some ''7000'') None None"
  have b: "parse_ymd (date ?bad) = None" by (simp add: point_def parse_ymd_not_a_date)
  have c: "chartData eng [?bad, ?good] Steps = Inl RangeError"
    by (rule series_fails [OF _ b]) simp
  have a: "filteredData 1742040000000 ''ALL'' [?bad, ?good] = [?bad, ?good]"
    by (simp add: filteredData_def)
  have w: "filteredData 1742040000000 ''7D'' [?bad, ?good] = [?good]"
    using cutoff_7D_20250315
    by (simp add: filteredData_cutoff on_or_after_def point_def parse_ymd_not_a_date
          parse_ymd_20250310)
  from parse_ymd_not_a_date a c w chartData_20250310 show ?thesis
    by (simp add: chart_prop_def)
qed

section \<open>Claim C9: the Series Builder always produces an output\<close>

text \<open>
  Claim C9 says that the Series Builder produces, for every filtered set, labels and
  values of the length of the set, and never fails.  For the empty set the chart handed
  on has no labels and no values, and for a set whose dates all parse both sequences
  have the length of the set (lemma \<open>series_lengths\<close>).  But the unbounded selector
  passes a record with an unparseable date on to the Series Builder, and there
  \<open>format\<close> throws: neither labels nor values are produced, on any engine.
\<close>

theorem series_builder_fails_on_unparseable_date:
  "filteredData 1742040000000 ''ALL'' [point ''not-a-date'' (Some ''5000'') None None]
     = [point ''not-a-date'' (Some ''5000'') None None]
   \<and> series_labels eng [point ''not-a-date'' (Some ''5000'') None None] Steps = Inl RangeError
   \<and> series_values eng [point ''not-a-date'' (Some ''5000'') None None] Steps = Inl RangeError
   \<and> series_labels eng [] Steps = Inr []
   \<and> series_values eng [] Steps = Inr []"
proof -
  let ?bad = "point ''not-a-date'' (Some ''5000'') None None"
  have b: "parse_ymd (date ?bad) = None" by (simp add: point_def parse_ymd_not_a_date)
  have c: "chartData eng [?bad] Steps = Inl RangeError"
    by (rule series_fails [OF _ b]) simp
  have a: "filteredData 1742040000000 ''ALL'' [?bad] = [?bad]"
    by (simp add: filteredData_def)
  have e: "chartData eng [] Steps = Inr None" by (simp add: chartData_def)
  from a c e show ?thesis
    by (simp add: series_labels_def series_values_def chart_prop_def)
qed

section \<open>Claim C10: a non-numeric field and the summary\<close>







end
